theory Spec2Isabelle
  imports Main
begin

chapter \<open>The EDA client: upload, summary refresh and rendering\<close>

text \<open>
  The client scripts of the repository are embedded as HOL functions. Four scripts are
  covered: the first upload page script (\<^verbatim>\<open>Phase-1-Foundation/eda-app/static/js/script.js\<close>),
  its later copy with the retrying fetch helper (\<^verbatim>\<open>part_004\<close>), and the two copies of the
  summary page script (\<^verbatim>\<open>part_000\<close> and \<^verbatim>\<open>part_005\<close>). Definitions come first, the
  lemmas and theorems about them follow.
\<close>

section \<open>JavaScript values\<close>

text \<open>
  Numbers are IEEE doubles in the source. Binary floating point is not modelled: a number is
  \<open>NaN\<close>, an integer \<open>Fin i\<close> (printed in plain decimal, which is what the runtime does below
  \<open>10^21\<close>), or any other double \<open>Frac s f\<close>, carried by the two texts the scripts can observe
  of it: \<open>s\<close> is what \<^verbatim>\<open>String(v)\<close> prints and \<open>f\<close> what \<^verbatim>\<open>v.toFixed(2)\<close> prints.
\<close>

datatype jsnum = NaN | Fin int | Frac string string

text \<open>
  Values as \<^verbatim>\<open>JSON.parse\<close> produces them, plus \<^verbatim>\<open>undefined\<close>. An object is the list of
  its own properties in enumeration order (the order of \<^verbatim>\<open>Object.keys\<close>); names inherited
  from the prototype (\<^verbatim>\<open>constructor\<close>, \<^verbatim>\<open>toString\<close>, \<^verbatim>\<open>length\<close>, ...) are not modelled.
\<close>

datatype jsval =
    JUndefined
  | JNull
  | JBool bool
  | JNum jsnum
  | JStr string
  | JArr "jsval list"
  | JObj "(string \<times> jsval) list"

text \<open>Errors that the scripts throw or receive.\<close>

datatype js_error =
    Error string                  \<comment> \<open>\<^verbatim>\<open>new Error(msg)\<close>\<close>
  | AbortError string             \<comment> \<open>the abort signal fired; the text is the runtime's message\<close>
  | FetchError string             \<comment> \<open>\<^verbatim>\<open>fetch\<close> rejected (a TypeError); the runtime's message\<close>
  | ReadOfNullish string string   \<comment> \<open>TypeError: property \<open>p\<close> read of \<^verbatim>\<open>undefined\<close> or \<^verbatim>\<open>null\<close>\<close>
  | NotAFunction string           \<comment> \<open>TypeError: the named member is not a function\<close>
  | SyntaxError                   \<comment> \<open>\<^verbatim>\<open>JSON.parse\<close> or \<^verbatim>\<open>res.json()\<close> failed\<close>

definition quote :: string where
  "quote = [CHR 0x27]"

fun err_name :: "js_error \<Rightarrow> string" where
  "err_name (Error m) = ''Error''"
| "err_name (AbortError m) = ''AbortError''"
| "err_name (FetchError m) = ''TypeError''"
| "err_name (ReadOfNullish b p) = ''TypeError''"
| "err_name (NotAFunction p) = ''TypeError''"
| "err_name SyntaxError = ''SyntaxError''"

text \<open>The messages of the runtime's own TypeErrors follow V8's wording.\<close>

fun err_message :: "js_error \<Rightarrow> string" where
  "err_message (Error m) = m"
| "err_message (AbortError m) = m"
| "err_message (FetchError m) = m"
| "err_message (ReadOfNullish b p) =
     ''Cannot read properties of '' @ b @ '' (reading '' @ quote @ p @ quote @ '')''"
| "err_message (NotAFunction p) = p @ '' is not a function''"
| "err_message SyntaxError = ''Unexpected token in JSON''"

fun digits :: "nat \<Rightarrow> string" where
  "digits n =
     (if n < 10 then [''0123456789'' ! n]
      else digits (n div 10) @ [''0123456789'' ! (n mod 10)])"

declare digits.simps [simp del]

definition int_text :: "int \<Rightarrow> string" where
  "int_text i = (if i < 0 then ''-'' @ digits (nat (- i)) else digits (nat i))"

fun Number_toString :: "jsnum \<Rightarrow> string" where
  "Number_toString NaN = ''NaN''"
| "Number_toString (Fin i) = int_text i"
| "Number_toString (Frac s f) = s"

fun toFixed2 :: "jsnum \<Rightarrow> string" where
  "toFixed2 NaN = ''NaN''"
| "toFixed2 (Fin i) = int_text i @ ''.00''"
| "toFixed2 (Frac s f) = f"

fun join_comma :: "string list \<Rightarrow> string" where
  "join_comma [] = []"
| "join_comma [s] = s"
| "join_comma (s # t # ts) = s @ '','' @ join_comma (t # ts)"

text \<open>\<^verbatim>\<open>String(v)\<close>, which is also what a template literal \<^verbatim>\<open>${v}\<close> inserts.\<close>

fun String_js :: "jsval \<Rightarrow> string" where
  "String_js JUndefined = ''undefined''"
| "String_js JNull = ''null''"
| "String_js (JBool b) = (if b then ''true'' else ''false'')"
| "String_js (JNum n) = Number_toString n"
| "String_js (JStr s) = s"
| "String_js (JArr xs) =
     join_comma (map (\<lambda>x. if x = JUndefined \<or> x = JNull then [] else String_js x) xs)"
| "String_js (JObj kvs) = ''[object Object]''"

fun truthy :: "jsval \<Rightarrow> bool" where
  "truthy JUndefined = False"
| "truthy JNull = False"
| "truthy (JBool b) = b"
| "truthy (JNum NaN) = False"
| "truthy (JNum (Fin i)) = (i \<noteq> 0)"
| "truthy (JNum (Frac s f)) = True"
| "truthy (JStr s) = (s \<noteq> [])"
| "truthy (JArr xs) = True"
| "truthy (JObj kvs) = True"

text \<open>\<^verbatim>\<open>a || b\<close>\<close>

definition js_or :: "jsval \<Rightarrow> jsval \<Rightarrow> jsval" where
  "js_or a b = (if truthy a then a else b)"

text \<open>An array index is a key that is the decimal text of a position of the array.\<close>

definition array_index :: "string \<Rightarrow> nat \<Rightarrow> nat option" where
  "array_index k n = find (\<lambda>i. digits i = k) [0..<n]"

text \<open>
  \<^verbatim>\<open>v[k]\<close> and \<^verbatim>\<open>v.k\<close>: a TypeError on \<^verbatim>\<open>undefined\<close> and \<^verbatim>\<open>null\<close>, the own property of an
  object or the element of an array or string, \<^verbatim>\<open>undefined\<close> otherwise.
\<close>

fun get :: "jsval \<Rightarrow> string \<Rightarrow> js_error + jsval" where
  "get JUndefined k = Inl (ReadOfNullish ''undefined'' k)"
| "get JNull k = Inl (ReadOfNullish ''null'' k)"
| "get (JObj kvs) k = Inr (case map_of kvs k of Some v \<Rightarrow> v | None \<Rightarrow> JUndefined)"
| "get (JArr xs) k =
     Inr (case array_index k (length xs) of Some i \<Rightarrow> xs ! i | None \<Rightarrow> JUndefined)"
| "get (JStr s) k =
     Inr (case array_index k (length s) of Some i \<Rightarrow> JStr [s ! i] | None \<Rightarrow> JUndefined)"
| "get (JBool b) k = Inr JUndefined"
| "get (JNum n) k = Inr JUndefined"

text \<open>The same read where the source has already tested the base for truthiness.\<close>

definition field :: "jsval \<Rightarrow> string \<Rightarrow> jsval" where
  "field v k = (case get v k of Inr x \<Rightarrow> x | Inl e \<Rightarrow> JUndefined)"

section \<open>escapeHtml\<close>

text \<open>
  \<^verbatim>\<open>str.replace(/c/g, r)\<close> for a single character \<open>c\<close> and a replacement text without
  \<^verbatim>\<open>$\<close> patterns: every occurrence of \<open>c\<close> becomes \<open>r\<close>.
\<close>

definition replace_all :: "char \<Rightarrow> string \<Rightarrow> string \<Rightarrow> string" where
  "replace_all c r s = concat (map (\<lambda>x. if x = c then r else [x]) s)"

text \<open>
  \<^verbatim>\<open>escapeHtml\<close> (part_000 lines 65-72, part_005 lines 26-33, part_004 lines 157-164): five
  replacement passes in the source's order, the ampersand first. On a string argument the
  leading \<^verbatim>\<open>String(str)\<close> of the summary page copies is the identity.
\<close>

definition escapeHtml :: "string \<Rightarrow> string" where
  "escapeHtml str =
     replace_all (CHR 0x27) ''&#39;''
       (replace_all (CHR 0x22) ''&quot;''
         (replace_all CHR ''>'' ''&gt;''
           (replace_all CHR ''<'' ''&lt;''
             (replace_all CHR ''&'' ''&amp;'' str))))"

text \<open>The five entities the passes can emit.\<close>

definition entities :: "string list" where
  "entities = [''&amp;'', ''&lt;'', ''&gt;'', ''&quot;'', ''&#39;'']"

text \<open>What one input character turns into after all five passes.\<close>

definition escape_char :: "char \<Rightarrow> string" where
  "escape_char c =
     (if c = CHR ''&'' then ''&amp;''
      else if c = CHR ''<'' then ''&lt;''
      else if c = CHR ''>'' then ''&gt;''
      else if c = CHR 0x22 then ''&quot;''
      else if c = CHR 0x27 then ''&#39;''
      else [c])"

section \<open>The summary page table\<close>

text \<open>
  The part of the summary page that the table code touches. \<open>dataTableInstance\<close> is \<open>None\<close>
  until \<^verbatim>\<open>init\<close> has created the DataTables widget; afterwards it holds the data rows the
  widget was given. \<open>tbody\<close> is the body of \<^verbatim>\<open>#columns-table\<close> as the script itself writes
  it: one entry per \<^verbatim>\<open>tr\<close>, each the list of the contents of its \<^verbatim>\<open>td\<close> cells.
\<close>

record summary_page =
  dataTableInstance :: "string list list option"
  tbody :: "string list list"
  upload_status :: string
  text_danger :: bool

text \<open>The rows a user sees: the widget's rows once it exists, the plain body before.\<close>

definition rendered_table :: "summary_page \<Rightarrow> string list list" where
  "rendered_table st = (case dataTableInstance st of Some rows \<Rightarrow> rows | None \<Rightarrow> tbody st)"

text \<open>A list traversal in which a throwing callback ends the traversal with its error.\<close>

fun map_err :: "('a \<Rightarrow> js_error + 'b) \<Rightarrow> 'a list \<Rightarrow> js_error + 'b list" where
  "map_err f [] = Inr []"
| "map_err f (x # xs) =
     (case f x of
        Inl e \<Rightarrow> Inl e
      | Inr y \<Rightarrow> (case map_err f xs of Inl e \<Rightarrow> Inl e | Inr ys \<Rightarrow> Inr (y # ys)))"

text \<open>
  \<^verbatim>\<open>const cols = summary.columns || []\<close> followed by \<^verbatim>\<open>cols.map\<close>: reading \<^verbatim>\<open>columns\<close> of
  \<^verbatim>\<open>undefined\<close> or \<^verbatim>\<open>null\<close> throws, and so does \<^verbatim>\<open>map\<close> on a truthy value that is not
  an array.
\<close>

definition summary_columns :: "jsval \<Rightarrow> js_error + jsval list" where
  "summary_columns summary =
     (case get summary ''columns'' of
        Inl e \<Rightarrow> Inl e
      | Inr c \<Rightarrow>
          (case js_or c (JArr []) of
             JArr cols \<Rightarrow> Inr cols
           | _ \<Rightarrow> Inl (NotAFunction ''cols.map'')))"

text \<open>
  \<^verbatim>\<open>summary.m ? (summary.m[col] || d) : d\<close> for one of the per-column maps \<open>m\<close> with
  default \<open>d\<close>.
\<close>

definition per_column :: "jsval \<Rightarrow> string \<Rightarrow> jsval \<Rightarrow> jsval \<Rightarrow> jsval" where
  "per_column summary m col d =
     (if truthy (field summary m) then js_or (field (field summary m) (String_js col)) d else d)"

text \<open>
  The callback of \<^verbatim>\<open>cols.map\<close> in \<^verbatim>\<open>buildTable\<close> and \<^verbatim>\<open>summaryToRows\<close> of part_000
  (lines 76-81 and 112-117). The first cell is the column name itself; it is a string in every
  summary of the data model, and the cell shows the text of any other value.
\<close>

definition table_row :: "jsval \<Rightarrow> jsval \<Rightarrow> string list" where
  "table_row summary col =
     [String_js col,
      String_js (per_column summary ''data_types'' col (JStr [])),
      String_js (per_column summary ''missing_values'' col (JNum (Fin 0))),
      String_js (per_column summary ''unique_counts'' col (JNum (Fin 0)))]"

definition summaryToRows :: "jsval \<Rightarrow> js_error + string list list" where
  "summaryToRows summary =
     (case summary_columns summary of
        Inl e \<Rightarrow> Inl e
      | Inr cols \<Rightarrow> Inr (map (table_row summary) cols))"

text \<open>
  \<^verbatim>\<open>buildTable\<close> of part_000 (lines 74-108). With the widget present the rows go to it
  through \<^verbatim>\<open>clear\<close>, \<^verbatim>\<open>rows.add\<close> and \<^verbatim>\<open>draw\<close>, which replace what the widget held (the
  widget's calls are taken not to throw, so the \<^verbatim>\<open>catch\<close> around them is not entered).
  Otherwise the body is emptied and one \<^verbatim>\<open>tr\<close> is appended per row, each cell escaped.
\<close>

definition write_rows :: "string list list \<Rightarrow> summary_page \<Rightarrow> summary_page" where
  "write_rows rows st =
     (case dataTableInstance st of
        Some old \<Rightarrow> st\<lparr>dataTableInstance := Some rows\<rparr>
      | None \<Rightarrow> st\<lparr>tbody := foldl (\<lambda>body r. body @ [map escapeHtml r]) [] rows\<rparr>)"

definition buildTable :: "jsval \<Rightarrow> summary_page \<Rightarrow> js_error + summary_page" where
  "buildTable summary st =
     (case summaryToRows summary of
        Inl e \<Rightarrow> Inl e
      | Inr rows \<Rightarrow> Inr (write_rows rows st))"

text \<open>
  \<^verbatim>\<open>buildTable\<close> of part_005 (lines 35-91) adds three statistics cells per row:
  \<^verbatim>\<open>stats.mean ? stats.mean.toFixed(2) : "N/A"\<close>, where \<^verbatim>\<open>toFixed\<close> exists on numbers only.
\<close>

definition stat_cell :: "jsval \<Rightarrow> string \<Rightarrow> js_error + string" where
  "stat_cell stats k =
     (if truthy (field stats k) then
        (case field stats k of
           JNum n \<Rightarrow> Inr (toFixed2 n)
         | _ \<Rightarrow> Inl (NotAFunction (''stats.'' @ k @ ''.toFixed'')))
      else Inr ''N/A'')"

definition table_row_stats :: "jsval \<Rightarrow> jsval \<Rightarrow> js_error + string list" where
  "table_row_stats summary col =
     (let stats = per_column summary ''descriptive_stats'' col (JObj []) in
      case stat_cell stats ''mean'' of
        Inl e \<Rightarrow> Inl e
      | Inr mean \<Rightarrow>
          (case stat_cell stats ''median'' of
             Inl e \<Rightarrow> Inl e
           | Inr median \<Rightarrow>
               (case stat_cell stats ''std_dev'' of
                  Inl e \<Rightarrow> Inl e
                | Inr std_dev \<Rightarrow> Inr (table_row summary col @ [mean, median, std_dev]))))"

definition buildTable_stats :: "jsval \<Rightarrow> summary_page \<Rightarrow> js_error + summary_page" where
  "buildTable_stats summary st =
     (case summary_columns summary of
        Inl e \<Rightarrow> Inl e
      | Inr cols \<Rightarrow>
          (case map_err (table_row_stats summary) cols of
             Inl e \<Rightarrow> Inl e
           | Inr rows \<Rightarrow> Inr (write_rows rows st)))"

section \<open>The upload page\<close>

text \<open>
  The state of the upload page script: its two module variables and the regions of the page
  it writes. \<open>summary_info\<close> holds the three texts inserted into \<^verbatim>\<open>#summary-info\<close> (rows,
  columns, memory); \<open>columns_table\<close> the rows of \<^verbatim>\<open>#columns-table\<close>, each the list of the
  contents of its four \<^verbatim>\<open>td\<close> cells; \<open>sample_table\<close> the header cells and the body rows of
  \<^verbatim>\<open>#sample-table\<close>. The three \<open>hidden\<close> flags are the \<^verbatim>\<open>d-none\<close> class of the error
  alert, the loading indicator and the results panel.
\<close>

record upload_page =
  currentSummary :: jsval
  currentFilename :: jsval
  error_text :: string
  error_hidden :: bool
  loading_hidden :: bool
  results_hidden :: bool
  summary_info :: "string list"
  columns_table :: "string list list"
  sample_table :: "string list \<times> string list list"

definition showError :: "jsval \<Rightarrow> upload_page \<Rightarrow> upload_page" where
  "showError msg st = st\<lparr>error_text := String_js msg, error_hidden := False\<rparr>"

definition hideError :: "upload_page \<Rightarrow> upload_page" where
  "hideError st = st\<lparr>error_hidden := True\<rparr>"

text \<open>
  The receiver of a \<^verbatim>\<open>forEach\<close> call: the items of an array; a TypeError for
  \<^verbatim>\<open>undefined\<close>, \<^verbatim>\<open>null\<close> and for every value that has no such method.
\<close>

definition forEach_items :: "string \<Rightarrow> jsval \<Rightarrow> js_error + jsval list" where
  "forEach_items name v =
     (case v of
        JArr xs \<Rightarrow> Inr xs
      | JUndefined \<Rightarrow> Inl (ReadOfNullish ''undefined'' ''forEach'')
      | JNull \<Rightarrow> Inl (ReadOfNullish ''null'' ''forEach'')
      | _ \<Rightarrow> Inl (NotAFunction (name @ ''.forEach'')))"

text \<open>
  The texts of \<^verbatim>\<open>#summary-info\<close>: \<^verbatim>\<open>${summary.shape[0]}\<close>, \<^verbatim>\<open>${summary.shape[1]}\<close> and
  \<^verbatim>\<open>${summary.memory_usage}\<close>.
\<close>

definition summary_info_texts :: "jsval \<Rightarrow> js_error + string list" where
  "summary_info_texts summary =
     (case get summary ''shape'' of
        Inl e \<Rightarrow> Inl e
      | Inr shape \<Rightarrow>
          (case get shape ''0'' of
             Inl e \<Rightarrow> Inl e
           | Inr r \<Rightarrow>
               (case get shape ''1'' of
                  Inl e \<Rightarrow> Inl e
                | Inr c \<Rightarrow>
                    Inr [String_js r, String_js c, String_js (field summary ''memory_usage'')])))"

text \<open>
  One row of the columns table (part_004 lines 127-136, script.js lines 93-102): the maps are
  indexed without a guard, and the values are inserted as they are.
\<close>

definition columns_row :: "jsval \<Rightarrow> jsval \<Rightarrow> js_error + string list" where
  \<open>columns_row summary col =
     (case get (field summary ''data_types'') (String_js col) of
        Inl e \<Rightarrow> Inl e
      | Inr dt \<Rightarrow>
          (case get (field summary ''missing_values'') (String_js col) of
             Inl e \<Rightarrow> Inl e
           | Inr mv \<Rightarrow>
               (case get (field summary ''unique_counts'') (String_js col) of
                  Inl e \<Rightarrow> Inl e
                | Inr uc \<Rightarrow>
                    Inr [String_js col,
                         ''<code>'' @ String_js dt @ ''</code>'',
                         ''<span class="badge bg-warning">'' @ String_js mv @ ''</span>'',
                         String_js uc])))\<close>

text \<open>
  A cell of the sample table. part_004 (lines 147-149) tests for \<^verbatim>\<open>null\<close>, \<^verbatim>\<open>undefined\<close>
  and a \<^verbatim>\<open>NaN\<close> number and escapes every other value; script.js (line 113) tests
  \<^verbatim>\<open>row[col] !== null\<close> only and inserts the value as it is.
\<close>

definition isMissing :: "jsval \<Rightarrow> bool" where
  "isMissing val = (val = JNull \<or> val = JUndefined \<or> val = JNum NaN)"

definition sample_cell :: "jsval \<Rightarrow> string" where
  "sample_cell val = (if isMissing val then ''<em>null</em>'' else escapeHtml (String_js val))"

definition sample_cell_phase1 :: "jsval \<Rightarrow> string" where
  "sample_cell_phase1 val = (if val \<noteq> JNull then String_js val else ''<em>null</em>'')"

definition sample_row ::
  "(jsval \<Rightarrow> string) \<Rightarrow> jsval list \<Rightarrow> jsval \<Rightarrow> js_error + string list" where
  "sample_row cell cols row =
     map_err (\<lambda>col. case get row (String_js col) of Inl e \<Rightarrow> Inl e | Inr val \<Rightarrow> Inr (cell val)) cols"

text \<open>
  The body of \<^verbatim>\<open>displayResults\<close> from the summary info on (part_004 lines 114-154,
  script.js lines 80-118), for a given cell renderer. Each region is assigned when its markup
  is complete, so an exception leaves the regions written before it changed and the later ones
  as they were. The final assignment of \<^verbatim>\<open>downloadBtn.onclick\<close> writes no state kept here.
\<close>

definition render_results ::
  "(jsval \<Rightarrow> string) \<Rightarrow> jsval \<Rightarrow> upload_page \<Rightarrow> js_error option \<times> upload_page" where
  "render_results cell summary st =
     (case summary_info_texts summary of
        Inl e \<Rightarrow> (Some e, st)
      | Inr info \<Rightarrow>
          (let st1 = st\<lparr>summary_info := info\<rparr> in
           case forEach_items ''cols'' (field summary ''columns'') of
             Inl e \<Rightarrow> (Some e, st1)
           | Inr cols \<Rightarrow>
               (case map_err (columns_row summary) cols of
                  Inl e \<Rightarrow> (Some e, st1)
                | Inr rows \<Rightarrow>
                    (let st2 = st1\<lparr>columns_table := rows\<rparr> in
                     case forEach_items ''summary.sample_data'' (field summary ''sample_data'') of
                       Inl e \<Rightarrow> (Some e, st2)
                     | Inr sample \<Rightarrow>
                         (case map_err (sample_row cell cols) sample of
                            Inl e \<Rightarrow> (Some e, st2)
                          | Inr body \<Rightarrow>
                              (None, st2\<lparr>sample_table := (map String_js cols, body)\<rparr>))))))"

text \<open>
  \<^verbatim>\<open>displayResults\<close> of part_004 (lines 96-154). Its first block fills the top cards inside
  a \<^verbatim>\<open>try\<close> whose \<^verbatim>\<open>catch\<close> only logs; the cards are not part of the state kept here and no
  exception leaves that block, so the function is the rest of its body.
\<close>

definition displayResults :: "jsval \<Rightarrow> upload_page \<Rightarrow> js_error option \<times> upload_page" where
  "displayResults summary st = render_results sample_cell summary st"

text \<open>\<^verbatim>\<open>displayResults\<close> of script.js (lines 79-136).\<close>

definition displayResults_phase1 ::
  "jsval \<Rightarrow> upload_page \<Rightarrow> js_error option \<times> upload_page" where
  "displayResults_phase1 summary st = render_results sample_cell_phase1 summary st"

section \<open>The network\<close>

text \<open>
  What one call of \<^verbatim>\<open>fetch\<close> ends with: the abort signal fired (a timeout), the request
  failed before any response (no connection), or a response arrived, with its status, status
  text and body text. The texts of \<open>Aborted\<close> and \<open>Failed\<close> are the runtime's messages. A
  response whose body cannot be read to the end counts as \<open>Failed\<close>.
\<close>

datatype outcome =
    Aborted string
  | Failed string
  | Response nat string string

text \<open>A request as it leaves the client: its URL and the timeout armed for it, if any.\<close>

record request =
  req_url :: string
  req_timeout :: "nat option"

definition ok :: "nat \<Rightarrow> bool" where
  "ok status = (200 \<le> status \<and> status \<le> 299)"

text \<open>\<^verbatim>\<open>JSON.parse\<close> is the runtime's; the scripts are modelled for any parser.\<close>

type_synonym parser = "string \<Rightarrow> jsval option"

text \<open>
  Strings are byte strings here. \<^verbatim>\<open>toLowerCase\<close> and the \<^verbatim>\<open>i\<close> flag of the file name pattern
  act on the ASCII letters, and \<^verbatim>\<open>trim\<close> strips the ASCII white space characters.
\<close>

definition toLowerCase_char :: "char \<Rightarrow> char" where
  "toLowerCase_char c =
     (case map_of (zip ''ABCDEFGHIJKLMNOPQRSTUVWXYZ'' ''abcdefghijklmnopqrstuvwxyz'') c of
        Some l \<Rightarrow> l
      | None \<Rightarrow> c)"

definition toLowerCase :: "string \<Rightarrow> string" where
  "toLowerCase s = map toLowerCase_char s"

fun startsWith :: "string \<Rightarrow> string \<Rightarrow> bool" where
  "startsWith s [] = True"
| "startsWith [] (p # ps) = False"
| "startsWith (c # cs) (p # ps) = (c = p \<and> startsWith cs ps)"

fun includes_str :: "string \<Rightarrow> string \<Rightarrow> bool" where
  "includes_str [] p = (p = [])"
| "includes_str (c # cs) p = (startsWith (c # cs) p \<or> includes_str cs p)"

definition is_space :: "char \<Rightarrow> bool" where
  "is_space c = (c \<in> set [CHR 0x09, CHR 0x0A, CHR 0x0B, CHR 0x0C, CHR 0x0D, CHR 0x20])"

definition trim :: "string \<Rightarrow> string" where
  "trim s = rev (dropWhile is_space (rev (dropWhile is_space s)))"

definition server_error_text :: "nat \<Rightarrow> string \<Rightarrow> string" where
  "server_error_text status statusText = ''Server error '' @ digits status @ '' '' @ statusText"

text \<open>
  The inner \<^verbatim>\<open>try\<close> block of \<^verbatim>\<open>fetchWithTimeoutAndRetries\<close> (part_004 lines 218-223): the
  body text is parsed unless it is empty; for a response that is not ok an \<^verbatim>\<open>Error\<close> is
  thrown whose message is \<^verbatim>\<open>(json && (json.error || json.message))\<close> or else the status line.
\<close>

definition parse_body :: "parser \<Rightarrow> nat \<Rightarrow> string \<Rightarrow> string \<Rightarrow> js_error + jsval" where
  "parse_body parse status statusText text =
     (case (if text \<noteq> [] then parse text else Some JNull) of
        None \<Rightarrow> Inl SyntaxError
      | Some json \<Rightarrow>
          if \<not> ok status then
            Inl (Error (String_js
              (js_or (if truthy json then js_or (field json ''error'') (field json ''message'')
                      else json)
                 (JStr (server_error_text status statusText)))))
          else Inr json)"

text \<open>
  The \<^verbatim>\<open>catch (parseErr)\<close> block that belongs to it (lines 224-230). It receives whatever
  the \<^verbatim>\<open>try\<close> block threw, the \<^verbatim>\<open>Error\<close> of line 221 included.
\<close>

definition read_body :: "parser \<Rightarrow> nat \<Rightarrow> string \<Rightarrow> string \<Rightarrow> js_error + jsval" where
  "read_body parse status statusText text =
     (case parse_body parse status statusText text of
        Inr json \<Rightarrow> Inr json
      | Inl parseErr \<Rightarrow>
          if \<not> ok status then
            Inl (Error (if trim text \<noteq> [] then trim text
                        else server_error_text status statusText))
          else Inr (JStr text))"

text \<open>One pass through the outer \<^verbatim>\<open>try\<close> block (lines 213-230).\<close>

definition attempt_once :: "parser \<Rightarrow> outcome \<Rightarrow> js_error + jsval" where
  "attempt_once parse out =
     (case out of
        Aborted m \<Rightarrow> Inl (AbortError m)
      | Failed m \<Rightarrow> Inl (FetchError m)
      | Response status statusText text \<Rightarrow> read_body parse status statusText text)"

text \<open>
  \<^verbatim>\<open>err.name === 'AbortError' || (err.message && err.message.toLowerCase().includes('timeout'))\<close>
\<close>

definition isTimeoutError :: "js_error \<Rightarrow> bool" where
  "isTimeoutError err =
     (err_name err = ''AbortError'' \<or>
      (err_message err \<noteq> [] \<and> includes_str (toLowerCase (err_message err)) ''timeout''))"

text \<open>
  The loop of \<^verbatim>\<open>fetchWithTimeoutAndRetries\<close> (lines 207-239). \<open>net k\<close> is the outcome of the
  \<open>k\<close>-th attempt of this call; \<open>sent\<close> collects the requests, each with the timeout that the
  abort controller arms for it (lines 208-211). Both \<^verbatim>\<open>continue\<close> statements of the outer
  \<^verbatim>\<open>catch\<close> block (lines 234 and 235) are kept.
\<close>

function fetchLoop ::
  "parser \<Rightarrow> (nat \<Rightarrow> outcome) \<Rightarrow> string \<Rightarrow> nat \<Rightarrow> nat \<Rightarrow> nat \<Rightarrow> js_error option \<Rightarrow>
     request list \<Rightarrow> (js_error + jsval) \<times> request list" where
  "fetchLoop parse net url timeout retries attempt lastErr sent =
     (if attempt \<le> retries then
        (case attempt_once parse (net attempt) of
           Inr v \<Rightarrow> (Inr v, sent @ [\<lparr>req_url = url, req_timeout = Some timeout\<rparr>])
         | Inl err \<Rightarrow>
             if isTimeoutError err \<and> attempt < retries then
               fetchLoop parse net url timeout retries (attempt + 1) (Some err)
                 (sent @ [\<lparr>req_url = url, req_timeout = Some timeout\<rparr>])
             else if attempt < retries then
               fetchLoop parse net url timeout retries (attempt + 1) (Some err)
                 (sent @ [\<lparr>req_url = url, req_timeout = Some timeout\<rparr>])
             else (Inl err, sent @ [\<lparr>req_url = url, req_timeout = Some timeout\<rparr>]))
      else
        (Inl (case lastErr of Some e \<Rightarrow> e | None \<Rightarrow> Error ''Unknown network error''), sent))"
  by pat_completeness auto
termination
  by (relation "measure (\<lambda>(parse, net, url, timeout, retries, attempt, lastErr, sent).
        Suc retries - attempt)") auto

declare fetchLoop.simps [simp del]

definition fetchWithTimeoutAndRetries ::
  "parser \<Rightarrow> (nat \<Rightarrow> outcome) \<Rightarrow> string \<Rightarrow> nat \<Rightarrow> nat \<Rightarrow> (js_error + jsval) \<times> request list" where
  "fetchWithTimeoutAndRetries parse net url timeout retries =
     fetchLoop parse net url timeout retries 0 None []"

text \<open>A plain \<^verbatim>\<open>fetch(url, ...)\<close> without a signal: the request carries no timeout.\<close>

definition plain_request :: "string \<Rightarrow> request" where
  "plain_request url = \<lparr>req_url = url, req_timeout = None\<rparr>"

text \<open>A network that answers the first attempts as listed and every later one with \<open>d\<close>.\<close>

definition script :: "outcome list \<Rightarrow> outcome \<Rightarrow> nat \<Rightarrow> outcome" where
  "script outs d k = (if k < length outs then outs ! k else d)"

section \<open>Uploading from the upload page\<close>

record js_file =
  file_name :: string
  file_size :: nat

definition unexpected :: jsval where
  "unexpected = JStr ''Unexpected server response''"

text \<open>
  The success branch of the \<^verbatim>\<open>then\<close> callback of \<^verbatim>\<open>uploadFile\<close> (part_004 lines 62-65 and
  71-74): both variables are assigned, then the results are rendered and the panel is shown.
\<close>

definition accept_summary ::
  "string \<Rightarrow> jsval \<Rightarrow> upload_page \<Rightarrow> js_error option \<times> upload_page" where
  "accept_summary name payload st =
     (case displayResults (field payload ''summary'')
             (st\<lparr>currentSummary := field payload ''summary'', currentFilename := JStr name\<rparr>) of
        (Some e, st') \<Rightarrow> (Some e, st')
      | (None, st') \<Rightarrow> (None, st'\<lparr>results_hidden := False\<rparr>))"

text \<open>
  The \<^verbatim>\<open>then\<close> callback (lines 59-84). An exception of its first branch leaves the callback;
  in the string branch everything runs inside \<^verbatim>\<open>try\<close>, whose \<^verbatim>\<open>catch\<close> shows
  \<^verbatim>\<open>data || 'Unexpected server response'\<close>.
\<close>

definition upload_then ::
  "parser \<Rightarrow> string \<Rightarrow> jsval \<Rightarrow> upload_page \<Rightarrow> js_error option \<times> upload_page" where
  "upload_then parse name data st0 =
     (let st = st0\<lparr>loading_hidden := True\<rparr> in
      if truthy data \<and> truthy (field data ''success'') then accept_summary name data st
      else
        (case data of
           JStr text \<Rightarrow>
             (case parse text of
                None \<Rightarrow> (None, showError (js_or data unexpected) st)
              | Some parsed \<Rightarrow>
                  if truthy parsed \<and> truthy (field parsed ''success'') then
                    (case accept_summary name parsed st of
                       (Some e, st') \<Rightarrow> (None, showError (js_or data unexpected) st')
                     | (None, st') \<Rightarrow> (None, st'))
                  else
                    (case get parsed ''error'' of
                       Inl e \<Rightarrow> (None, showError (js_or data unexpected) st)
                     | Inr er \<Rightarrow>
                         (None,
                          showError
                            (js_or er (js_or (field parsed ''message'') (js_or data unexpected)))
                            st)))
         | _ \<Rightarrow>
             (None,
              showError (js_or (if truthy data then field data ''error'' else data) unexpected)
                st)))"

text \<open>The \<^verbatim>\<open>catch\<close> callback (lines 85-93); \<open>onLine\<close> is \<^verbatim>\<open>navigator.onLine\<close>.\<close>

definition upload_catch :: "bool \<Rightarrow> js_error \<Rightarrow> upload_page \<Rightarrow> upload_page" where
  "upload_catch onLine err st0 =
     (let st = st0\<lparr>loading_hidden := True\<rparr> in
      if \<not> onLine then
        showError (JStr ''No network connection. Please check your internet and try again.'') st
      else
        showError (js_or (JStr (err_message err)) (JStr ''Network error. Please try again.'')) st)"

text \<open>
  \<^verbatim>\<open>uploadFile\<close> of part_004 (lines 50-94): the page after the promise chain has settled,
  and the requests that were sent.
\<close>

definition uploadFile ::
  "parser \<Rightarrow> (nat \<Rightarrow> outcome) \<Rightarrow> bool \<Rightarrow> js_file \<Rightarrow> upload_page \<Rightarrow> upload_page \<times> request list" where
  "uploadFile parse net onLine file st0 =
     (let st = (hideError st0)\<lparr>loading_hidden := False, results_hidden := True\<rparr>;
          fetched = fetchWithTimeoutAndRetries parse net ''/upload'' 30000 2 in
      (case (case fst fetched of
               Inr data \<Rightarrow> upload_then parse (file_name file) data st
             | Inl err \<Rightarrow> (Some err, st)) of
         (None, st') \<Rightarrow> st'
       | (Some err, st') \<Rightarrow> upload_catch onLine err st',
       snd fetched))"

text \<open>\<^verbatim>\<open>file.name.match(/\.(csv|xlsx)$/i)\<close>\<close>

definition endsWith :: "string \<Rightarrow> string \<Rightarrow> bool" where
  "endsWith s p = (length p \<le> length s \<and> drop (length s - length p) s = p)"

definition name_matches :: "string \<Rightarrow> bool" where
  "name_matches name =
     (endsWith (toLowerCase name) ''.csv'' \<or> endsWith (toLowerCase name) ''.xlsx'')"

text \<open>\<^verbatim>\<open>handleFiles\<close> (part_004 lines 36-48).\<close>

definition handleFiles ::
  "parser \<Rightarrow> (nat \<Rightarrow> outcome) \<Rightarrow> bool \<Rightarrow> js_file list \<Rightarrow> upload_page \<Rightarrow>
     upload_page \<times> request list" where
  "handleFiles parse net onLine files st =
     (case files of
        [] \<Rightarrow> (st, [])
      | file # others \<Rightarrow>
          if \<not> name_matches (file_name file) then
            (showError (JStr ''Please upload a .csv or .xlsx file.'') st, [])
          else if file_size file > 10 * 1024 * 1024 then
            (showError (JStr ''File size must be under 10MB.'') st, [])
          else uploadFile parse net onLine file st)"

text \<open>
  \<^verbatim>\<open>uploadFile\<close> of script.js (lines 49-77): one plain \<^verbatim>\<open>fetch\<close>, \<^verbatim>\<open>res.json()\<close> without a
  look at the status, and a \<^verbatim>\<open>catch\<close> that shows one fixed text.
\<close>

definition upload_failed_phase1 :: "upload_page \<Rightarrow> upload_page" where
  "upload_failed_phase1 st =
     showError (JStr ''Network error. Please try again.'') (st\<lparr>loading_hidden := True\<rparr>)"

definition uploadFile_phase1 ::
  "parser \<Rightarrow> outcome \<Rightarrow> js_file \<Rightarrow> upload_page \<Rightarrow> upload_page \<times> request list" where
  "uploadFile_phase1 parse out file st0 =
     (let st = (hideError st0)\<lparr>loading_hidden := False, results_hidden := True\<rparr> in
      (case out of
         Aborted m \<Rightarrow> upload_failed_phase1 st
       | Failed m \<Rightarrow> upload_failed_phase1 st
       | Response status statusText text \<Rightarrow>
           (case parse text of
              None \<Rightarrow> upload_failed_phase1 st
            | Some data \<Rightarrow>
                (case get data ''success'' of
                   Inl e \<Rightarrow> upload_failed_phase1 (st\<lparr>loading_hidden := True\<rparr>)
                 | Inr success \<Rightarrow>
                     if truthy success then
                       (case displayResults_phase1 (field data ''summary'')
                               (st\<lparr>loading_hidden := True,
                                   currentSummary := field data ''summary'',
                                   currentFilename := JStr (file_name file)\<rparr>) of
                          (Some e, st') \<Rightarrow> upload_failed_phase1 st'
                        | (None, st') \<Rightarrow> st'\<lparr>results_hidden := False\<rparr>)
                     else
                       showError (js_or (field data ''error'') (JStr ''Unknown error''))
                         (st\<lparr>loading_hidden := True\<rparr>))),
       [plain_request ''/upload'']))"

text \<open>\<^verbatim>\<open>handleFiles\<close> of script.js (lines 35-47).\<close>

definition handleFiles_phase1 ::
  "parser \<Rightarrow> outcome \<Rightarrow> js_file list \<Rightarrow> upload_page \<Rightarrow> upload_page \<times> request list" where
  "handleFiles_phase1 parse out files st =
     (case files of
        [] \<Rightarrow> (st, [])
      | file # others \<Rightarrow>
          if \<not> name_matches (file_name file) then
            (showError (JStr ''Please upload a .csv or .xlsx file.'') st, [])
          else if file_size file > 10 * 1024 * 1024 then
            (showError (JStr ''File size must be under 10MB.'') st, [])
          else uploadFile_phase1 parse out file st)"

section \<open>Uploading from the summary page\<close>

text \<open>
  \<^verbatim>\<open>uploadFileAndRefresh\<close> of part_000 (lines 121-151): the value returned, the page and
  the request sent. The copy in part_005 (lines 257-303) sends the same single plain
  \<^verbatim>\<open>fetch\<close> and has the same failure branches; its success branch also re-renders the page.
\<close>

definition upload_rejected :: "string \<Rightarrow> summary_page \<Rightarrow> jsval \<times> summary_page" where
  "upload_rejected msg st = (JNull, st\<lparr>upload_status := msg, text_danger := True\<rparr>)"

definition uploadFileAndRefresh ::
  "parser \<Rightarrow> outcome \<Rightarrow> js_file \<Rightarrow> summary_page \<Rightarrow> (jsval \<times> summary_page) \<times> request list" where
  "uploadFileAndRefresh parse out file st0 =
     (let st = st0\<lparr>upload_status := ''Uploading...''\<rparr> in
      (case out of
         Aborted m \<Rightarrow> upload_rejected (if m \<noteq> [] then m else ''Upload failed'') st
       | Failed m \<Rightarrow> upload_rejected (if m \<noteq> [] then m else ''Upload failed'') st
       | Response status statusText text \<Rightarrow>
           (let payload =
                  (if text \<noteq> [] then (case parse text of Some json \<Rightarrow> json | None \<Rightarrow> JStr text)
                   else JNull) in
            if \<not> ok status then
              upload_rejected
                (String_js
                   (if truthy payload \<and> truthy (field payload ''error'') then field payload ''error''
                    else JStr (''Server error '' @ digits status))) st
            else if truthy payload \<and> truthy (field payload ''success'') then
              (field payload ''summary'',
               st\<lparr>upload_status := ''Analysis complete'', text_danger := False\<rparr>)
            else upload_rejected ''Unexpected server response'' st),
       [plain_request ''/upload'']))"

text \<open>
  The click handler of the upload button up to the end of the upload (part_000 lines 235-243,
  part_005 lines 395-403): the only test before the upload is that a file is selected. What
  follows in the handler re-renders the page from a truthy result and sends nothing.
\<close>

definition upload_click ::
  "parser \<Rightarrow> outcome \<Rightarrow> js_file list \<Rightarrow> summary_page \<Rightarrow> (jsval \<times> summary_page) \<times> request list" where
  "upload_click parse out files st =
     (case files of
        [] \<Rightarrow> ((JUndefined, st\<lparr>upload_status := ''Please select a file'', text_danger := True\<rparr>), [])
      | f # others \<Rightarrow> uploadFileAndRefresh parse out f st)"

section \<open>Loading the summary\<close>

text \<open>
  \<^verbatim>\<open>fetchSummary\<close> (part_000 lines 40-51, part_005 lines 1-12). The body of its \<^verbatim>\<open>try\<close>
  block returns the summary or throws; the function returns that value, or \<^verbatim>\<open>null\<close> after
  logging the error with \<^verbatim>\<open>console.error\<close>. The second component is what was logged. The
  function has no access to the page.
\<close>

definition fetchSummary_try :: "parser \<Rightarrow> outcome \<Rightarrow> js_error + jsval" where
  "fetchSummary_try parse out =
     (case out of
        Aborted m \<Rightarrow> Inl (AbortError m)
      | Failed m \<Rightarrow> Inl (FetchError m)
      | Response status statusText text \<Rightarrow>
          if \<not> ok status then Inl (Error (''Server returned '' @ digits status))
          else
            (case parse text of
               None \<Rightarrow> Inl SyntaxError
             | Some payload \<Rightarrow>
                 (case get payload ''success'' of
                    Inl e \<Rightarrow> Inl e
                  | Inr success \<Rightarrow>
                      if \<not> truthy success then
                        Inl (Error (String_js (js_or (field payload ''error'') (JStr ''No summary''))))
                      else Inr (field payload ''summary''))))"

definition fetchSummary :: "parser \<Rightarrow> outcome \<Rightarrow> jsval \<times> js_error list" where
  "fetchSummary parse out =
     (case fetchSummary_try parse out of
        Inr summary \<Rightarrow> (summary, [])
      | Inl err \<Rightarrow> (JNull, [err]))"

section \<open>Choosing the charts\<close>

text \<open>
  \<^verbatim>\<open>Object.keys\<close>: the own enumerable property names, in enumeration order. For an object
  parsed from JSON that is the order in which the names arrived, except that names that are
  array indices come first; the list kept in \<open>JObj\<close> is taken to be in that order already.
\<close>

definition object_keys :: "jsval \<Rightarrow> string list" where
  "object_keys v =
     (case v of
        JObj kvs \<Rightarrow> map fst kvs
      | JArr xs \<Rightarrow> map digits [0..<length xs]
      | JStr s \<Rightarrow> map digits [0..<length s]
      | _ \<Rightarrow> [])"

text \<open>\<^verbatim>\<open>typeof v === 'object'\<close> for a truthy \<open>v\<close>.\<close>

definition is_object :: "jsval \<Rightarrow> bool" where
  "is_object v = (case v of JObj kvs \<Rightarrow> True | JArr xs \<Rightarrow> True | _ \<Rightarrow> False)"

text \<open>\<^verbatim>\<open>s.replace(/__/g, ' vs ')\<close>\<close>

fun replace_dunder :: "string \<Rightarrow> string" where
  "replace_dunder (a # b # cs) =
     (if a = CHR ''_'' \<and> b = CHR ''_'' then '' vs '' @ replace_dunder cs
      else a # replace_dunder (b # cs))"
| "replace_dunder cs = cs"

text \<open>
  A card of the charts panel: its title and the image data put after
  \<^verbatim>\<open>data:image/png;base64,\<close>. The running state of the selection is the markup built so
  far, the counter and the set of used keys (part_005 lines 129-132).
\<close>

type_synonym card = "string \<times> string"

record selection =
  chartsHtml :: "card list"
  count :: nat
  usedKeys :: "string list"

definition MAX_CHARTS :: nat where
  "MAX_CHARTS = 4"

definition add_card :: "card \<Rightarrow> string \<Rightarrow> selection \<Rightarrow> selection" where
  "add_card c key sel =
     sel\<lparr>chartsHtml := chartsHtml sel @ [c], count := count sel + 1,
         usedKeys := usedKeys sel @ [key]\<rparr>"

text \<open>Step 1 (lines 134-147).\<close>

definition select_heatmap :: "jsval \<Rightarrow> selection \<Rightarrow> selection" where
  "select_heatmap charts sel =
     (if truthy (field charts ''correlation_heatmap'') \<and> count sel < MAX_CHARTS then
        add_card (''Correlation Heatmap'', String_js (field charts ''correlation_heatmap''))
          ''correlation_heatmap'' sel
      else sel)"

text \<open>
  Step 2 (lines 149-166). The key found starts with \<^verbatim>\<open>scatter__\<close>, so it is truthy and the
  first \<^verbatim>\<open>replace\<close> removes that prefix.
\<close>

definition scatter_card :: "jsval \<Rightarrow> string \<Rightarrow> card" where
  "scatter_card charts scatterKey =
     (replace_dunder (drop (length ''scatter__'') scatterKey),
      String_js (field charts scatterKey))"

definition select_scatter :: "jsval \<Rightarrow> selection \<Rightarrow> selection" where
  "select_scatter charts sel =
     (if count sel < MAX_CHARTS then
        (case find (\<lambda>k. startsWith k ''scatter__'') (object_keys charts) of
           Some scatterKey \<Rightarrow> add_card (scatter_card charts scatterKey) scatterKey sel
         | None \<Rightarrow> sel)
      else sel)"

text \<open>
  Steps 3 and 4 (lines 168-188 and 190-210) are the same code for two pairs of chart types:
  \<^verbatim>\<open>histogram\<close> before \<^verbatim>\<open>boxplot\<close>, and \<^verbatim>\<open>barh\<close> before \<^verbatim>\<open>pie\<close>.
\<close>

definition candidates :: "jsval \<Rightarrow> string list" where
  "candidates charts =
     filter (\<lambda>k. \<not> startsWith k ''scatter__'' \<and> k \<noteq> ''correlation_heatmap'') (object_keys charts)"

definition has_type :: "string \<Rightarrow> string \<Rightarrow> jsval \<Rightarrow> bool" where
  "has_type first second v =
     (truthy v \<and> is_object v \<and> (truthy (field v first) \<or> truthy (field v second)))"

definition typed_card :: "string \<Rightarrow> string \<Rightarrow> string \<Rightarrow> jsval \<Rightarrow> card" where
  "typed_card first second key v =
     (let type = (if truthy (field v first) then first else second) in
      (replace_all CHR ''_'' '' '' key @ '' ('' @ type @ '')'', String_js (field v type)))"

definition select_typed :: "string \<Rightarrow> string \<Rightarrow> jsval \<Rightarrow> selection \<Rightarrow> selection" where
  "select_typed first second charts sel =
     (if count sel < MAX_CHARTS then
        (case find (\<lambda>(k, v). has_type first second v)
                (map (\<lambda>k. (k, field charts k)) (candidates charts)) of
           Some (key, v) \<Rightarrow> add_card (typed_card first second key v) key sel
         | None \<Rightarrow> sel)
      else sel)"

text \<open>
  The fallback (lines 212-244). \<open>fallback_card\<close> is the body of the loop up to the test of
  \<^verbatim>\<open>img\<close>: \<open>None\<close> when there is no image to show for the key.
\<close>

definition fallback_card :: "string \<Rightarrow> jsval \<Rightarrow> card option" where
  "fallback_card key v =
     (case v of
        JStr img \<Rightarrow> if img \<noteq> [] then Some (replace_all CHR ''_'' '' '' key, img) else None
      | _ \<Rightarrow>
          if truthy v \<and> is_object v then
            (case find (\<lambda>p. truthy (field v p)) [''histogram'', ''boxplot'', ''barh'', ''pie''] of
               Some t \<Rightarrow>
                 Some (replace_all CHR ''_'' '' '' key @ '' ('' @ t @ '')'', String_js (field v t))
             | None \<Rightarrow> None)
          else None)"

fun fill_remaining :: "jsval \<Rightarrow> string list \<Rightarrow> selection \<Rightarrow> selection" where
  "fill_remaining charts [] sel = sel"
| "fill_remaining charts (key # keys) sel =
     (if count sel \<ge> MAX_CHARTS then sel
      else
        fill_remaining charts keys
          (case fallback_card key (field charts key) of
             Some c \<Rightarrow> sel\<lparr>chartsHtml := chartsHtml sel @ [c], count := count sel + 1\<rparr>
           | None \<Rightarrow> sel))"

definition select_fallback :: "jsval \<Rightarrow> selection \<Rightarrow> selection" where
  "select_fallback charts sel =
     (if count sel < MAX_CHARTS then
        fill_remaining charts (filter (\<lambda>k. k \<notin> set (usedKeys sel)) (object_keys charts)) sel
      else sel)"

text \<open>The selection of \<^verbatim>\<open>displayCharts\<close> (lines 129-244) for the charts of a payload.\<close>

definition select_charts :: "jsval \<Rightarrow> card list" where
  "select_charts charts =
     chartsHtml
       (select_fallback charts
         (select_typed ''barh'' ''pie'' charts
           (select_typed ''histogram'' ''boxplot'' charts
             (select_scatter charts
               (select_heatmap charts \<lparr>chartsHtml = [], count = 0, usedKeys = []\<rparr>)))))"

text \<open>
  \<^verbatim>\<open>displayCharts\<close> (part_005 lines 113-255): the charts section is shown with the selected
  cards (an empty list stands for the notice that no chart could be generated), or hidden
  when the request or the payload fails.
\<close>

record charts_panel =
  section_shown :: bool
  container :: "card list"

definition displayCharts :: "parser \<Rightarrow> outcome \<Rightarrow> charts_panel \<Rightarrow> charts_panel \<times> request list" where
  "displayCharts parse out panel =
     (case out of
        Response status statusText text \<Rightarrow>
          if \<not> ok status then panel\<lparr>section_shown := False\<rparr>
          else
            (case parse text of
               None \<Rightarrow> panel\<lparr>section_shown := False\<rparr>
             | Some payload \<Rightarrow>
                 (case get payload ''success'' of
                    Inl e \<Rightarrow> panel\<lparr>section_shown := False\<rparr>
                  | Inr success \<Rightarrow>
                      if \<not> truthy success then panel\<lparr>section_shown := False\<rparr>
                      else
                        panel\<lparr>section_shown := True,
                              container :=
                                select_charts (js_or (field payload ''charts'') (JObj []))\<rparr>))
      | _ \<Rightarrow> panel\<lparr>section_shown := False\<rparr>,
      [plain_request ''/charts''])"

text \<open>
  The selection as the specification words it: the picks of the priority list, each at most
  one card, followed by as many of the other charts that have an image, in the order
  received, as still fit under four.
\<close>

definition spec_heatmap :: "jsval \<Rightarrow> (string \<times> card) list" where
  "spec_heatmap charts =
     (if truthy (field charts ''correlation_heatmap'') then
        [(''correlation_heatmap'',
          (''Correlation Heatmap'', String_js (field charts ''correlation_heatmap'')))]
      else [])"

definition spec_scatter :: "jsval \<Rightarrow> (string \<times> card) list" where
  "spec_scatter charts =
     (case find (\<lambda>k. startsWith k ''scatter__'') (object_keys charts) of
        Some k \<Rightarrow> [(k, scatter_card charts k)]
      | None \<Rightarrow> [])"

definition spec_typed :: "string \<Rightarrow> string \<Rightarrow> jsval \<Rightarrow> (string \<times> card) list" where
  "spec_typed preferred other charts =
     (case find (\<lambda>k. has_type preferred other (field charts k)) (candidates charts) of
        Some k \<Rightarrow> [(k, typed_card preferred other k (field charts k))]
      | None \<Rightarrow> [])"

definition spec_priority :: "jsval \<Rightarrow> (string \<times> card) list" where
  "spec_priority charts =
     spec_heatmap charts @ spec_scatter charts @
     spec_typed ''histogram'' ''boxplot'' charts @ spec_typed ''barh'' ''pie'' charts"

definition spec_others :: "jsval \<Rightarrow> card list" where
  "spec_others charts =
     List.map_filter (\<lambda>k. fallback_card k (field charts k))
       (filter (\<lambda>k. k \<notin> set (map fst (spec_priority charts))) (object_keys charts))"

definition spec_selection :: "jsval \<Rightarrow> card list" where
  "spec_selection charts =
     map snd (spec_priority charts) @
     take (4 - length (spec_priority charts)) (spec_others charts)"

text \<open>
  The invariant of the four priority steps: the cards, the counter and the used keys are
  those of the picks made so far.
\<close>

definition picked :: "selection \<Rightarrow> (string \<times> card) list \<Rightarrow> bool" where
  "picked sel picks =
     (chartsHtml sel = map snd picks \<and> count sel = length picks \<and> usedKeys sel = map fst picks)"

text \<open>
  The payload of the specification's example: the heatmap, two scatter plots and one
  histogram.
\<close>

definition example_charts :: jsval where
  "example_charts =
     JObj [(''correlation_heatmap'', JStr ''HEAT''), (''scatter__a__b'', JStr ''S1''),
           (''scatter__a__c'', JStr ''S2''), (''age'', JObj [(''histogram'', JStr ''H'')])]"

section \<open>Example inputs\<close>

text \<open>The parser restricted to the three bodies that the worked examples use.\<close>

definition example_parse :: parser where
  \<open>example_parse =
     map_of [(''{"error":"disk full"}'', JObj [(''error'', JStr ''disk full'')]),
             (''{"success":false}'', JObj [(''success'', JBool False)]),
             (''{"success":true}'', JObj [(''success'', JBool True)])]\<close>

text \<open>A request sent through \<^verbatim>\<open>fetchWithTimeoutAndRetries\<close>.\<close>

definition timed :: "string \<Rightarrow> nat \<Rightarrow> request" where
  "timed url timeout = \<lparr>req_url = url, req_timeout = Some timeout\<rparr>"

text \<open>The fixed text of the \<^verbatim>\<open>catch\<close> callback for the offline case.\<close>

definition offline_text :: string where
  "offline_text = ''No network connection. Please check your internet and try again.''"

text \<open>The upload page once \<^verbatim>\<open>uploadFile\<close> has started (part_004 lines 51-53).\<close>

definition uploading :: "upload_page \<Rightarrow> upload_page" where
  "uploading st = (hideError st)\<lparr>loading_hidden := False, results_hidden := True\<rparr>"

text \<open>An upload page that holds nothing yet, and a file that passes the checks.\<close>

definition empty_page :: upload_page where
  "empty_page = \<lparr>currentSummary = JNull, currentFilename = JNull, error_text = [],
     error_hidden = True, loading_hidden = True, results_hidden = True, summary_info = [],
     columns_table = [], sample_table = ([], [])\<rparr>"

definition example_file :: js_file where
  "example_file = \<lparr>file_name = ''data.csv'', file_size = 1024\<rparr>"

text \<open>A file that fails both checks of \<^verbatim>\<open>handleFiles\<close>: wrong extension, 11 MB.\<close>

definition unchecked_file :: js_file where
  "unchecked_file = \<lparr>file_name = ''x.txt'', file_size = 11 * 1024 * 1024\<rparr>"

text \<open>
  Three summaries of one column \<open>a\<close>: one without \<^verbatim>\<open>data_types\<close>, one whose three maps are
  present and empty, and one with two sample rows, the first without a value for \<open>a\<close>, the
  second with markup in it.
\<close>

definition summary_without_types :: jsval where
  "summary_without_types =
     JObj [(''shape'', JArr [JNum (Fin 5), JNum (Fin 1)]),
           (''columns'', JArr [JStr ''a'']),
           (''missing_values'', JObj []),
           (''unique_counts'', JObj []),
           (''sample_data'', JArr [])]"

definition summary_omitting_keys :: jsval where
  "summary_omitting_keys =
     JObj [(''shape'', JArr [JNum (Fin 5), JNum (Fin 1)]),
           (''columns'', JArr [JStr ''a'']),
           (''data_types'', JObj []),
           (''missing_values'', JObj []),
           (''unique_counts'', JObj []),
           (''sample_data'', JArr [])]"

definition summary_with_sample :: jsval where
  \<open>summary_with_sample =
     JObj [(''shape'', JArr [JNum (Fin 2), JNum (Fin 1)]),
           (''columns'', JArr [JStr ''a'']),
           (''data_types'', JObj [(''a'', JStr ''object'')]),
           (''missing_values'', JObj [(''a'', JNum (Fin 1))]),
           (''unique_counts'', JObj [(''a'', JNum (Fin 1))]),
           (''sample_data'', JArr [JObj [], JObj [(''a'', JStr ''<b>x</b>'')]])]\<close>

text \<open>
  The parser restricted to two bodies for \<^verbatim>\<open>GET /summary-data\<close> whose \<^verbatim>\<open>success\<close> is truthy
  without being \<^verbatim>\<open>true\<close>: the number 1 and the string \<^verbatim>\<open>false\<close>.
\<close>

definition summary_parse :: parser where
  \<open>summary_parse =
     map_of [(''{"success":1,"summary":{"columns":[]}}'',
              JObj [(''success'', JNum (Fin 1)), (''summary'', JObj [(''columns'', JArr [])])]),
             (''{"success":"false","summary":{"columns":[]}}'',
              JObj [(''success'', JStr ''false''), (''summary'', JObj [(''columns'', JArr [])])])]\<close>

chapter \<open>Properties\<close>

section \<open>escapeHtml\<close>

lemma replace_all_Nil: "replace_all c r [] = []"
  by (simp add: replace_all_def)

lemma replace_all_Cons:
  "replace_all c r (x # xs) = (if x = c then r else [x]) @ replace_all c r xs"
  by (simp add: replace_all_def)

lemma replace_all_append:
  "replace_all c r (xs @ ys) = replace_all c r xs @ replace_all c r ys"
  by (simp add: replace_all_def)

lemma escapeHtml_Nil: "escapeHtml [] = []"
  by (simp add: escapeHtml_def replace_all_Nil)

lemma escapeHtml_Cons: "escapeHtml (x # xs) = escape_char x @ escapeHtml xs"
  by (simp add: escapeHtml_def escape_char_def replace_all_Cons replace_all_append
      replace_all_Nil)

text \<open>The five sequential passes amount to one pass that maps each character on its own.\<close>

lemma escapeHtml_concat: "escapeHtml s = concat (map escape_char s)"
  by (induction s) (simp_all add: escapeHtml_Nil escapeHtml_Cons)

lemma escape_char_amp:
  "i < length (escape_char c) \<Longrightarrow> escape_char c ! i = CHR ''&'' \<Longrightarrow>
     i = 0 \<and> escape_char c \<in> set entities"
  by (auto simp: escape_char_def entities_def nth_Cons' split: if_splits)

lemma escapeHtml_amp_entity:
  "i < length (escapeHtml s) \<Longrightarrow> escapeHtml s ! i = CHR ''&'' \<Longrightarrow>
     \<exists>e \<in> set entities. take (length e) (drop i (escapeHtml s)) = e"
proof (induction s arbitrary: i)
  case Nil
  then show ?case by (simp add: escapeHtml_Nil)
next
  case (Cons c s)
  let ?b = "escape_char c"
  show ?case
  proof (cases "i < length ?b")
    case True
    with Cons.prems have "?b ! i = CHR ''&''"
      by (simp add: escapeHtml_Cons nth_append)
    with True have "i = 0" and "?b \<in> set entities"
      using escape_char_amp by blast+
    then show ?thesis
      by (auto simp: escapeHtml_Cons intro!: bexI [where x = ?b])
  next
    case False
    let ?j = "i - length ?b"
    from False Cons.prems
    have "?j < length (escapeHtml s)" and "escapeHtml s ! ?j = CHR ''&''"
      by (auto simp: escapeHtml_Cons nth_append)
    from Cons.IH [OF this] obtain e
      where "e \<in> set entities" "take (length e) (drop ?j (escapeHtml s)) = e"
      by blast
    with False show ?thesis
      by (auto simp: escapeHtml_Cons intro!: bexI [where x = e])
  qed
qed

lemma escapeHtml_no_markup:
  "set (escapeHtml s) \<inter> {CHR ''<'', CHR ''>'', CHR 0x22, CHR 0x27} = {}"
  by (auto simp: escapeHtml_concat escape_char_def split: if_splits)

text \<open>
  Claim C9. For every input string, the output of \<^verbatim>\<open>escapeHtml\<close> contains none of the
  characters \<^verbatim>\<open><\<close>, \<^verbatim>\<open>>\<close>, double quote and single quote, and every ampersand of the output
  is the first character of one of the entities \<^verbatim>\<open>&amp;\<close>, \<^verbatim>\<open>&lt;\<close>, \<^verbatim>\<open>&gt;\<close>, \<^verbatim>\<open>&quot;\<close>,
  \<^verbatim>\<open>&#39;\<close> standing at that position. The definition replaces the ampersand first, as the
  source does.
\<close>

theorem escapeHtml_output_escaped:
  "set (escapeHtml s) \<inter> {CHR ''<'', CHR ''>'', CHR 0x22, CHR 0x27} = {} \<and>
   (\<forall>i < length (escapeHtml s). escapeHtml s ! i = CHR ''&'' \<longrightarrow>
      (\<exists>e \<in> set entities. take (length e) (drop i (escapeHtml s)) = e))"
proof (intro conjI allI impI)
  show "set (escapeHtml s) \<inter> {CHR ''<'', CHR ''>'', CHR 0x22, CHR 0x27} = {}"
    by (rule escapeHtml_no_markup)
next
  fix i
  assume "i < length (escapeHtml s)" and "escapeHtml s ! i = CHR ''&''"
  then show "\<exists>e \<in> set entities. take (length e) (drop i (escapeHtml s)) = e"
    by (rule escapeHtml_amp_entity)
qed

theorem escapeHtml_output_escaped_witness:
  "4 < length (escapeHtml ''<&'') \<and> escapeHtml ''<&'' ! 4 = CHR ''&'' \<and>
   (\<exists>e \<in> set entities. take (length e) (drop 4 (escapeHtml ''<&'')) = e)"
proof -
  have h1: "4 < length (escapeHtml ''<&'')"
    by (simp add: escapeHtml_def replace_all_def)
  have h2: "escapeHtml ''<&'' ! 4 = CHR ''&''"
    by (simp add: escapeHtml_def replace_all_def)
  note t = escapeHtml_output_escaped [of "''<&''", THEN conjunct2, rule_format, of 4]
  from t [OF h1 h2] h1 h2 show ?thesis
    by (intro conjI)
qed

section \<open>The summary page table\<close>

lemma foldl_snoc_map: "foldl (\<lambda>body r. body @ [f r]) acc rows = acc @ map f rows"
  by (induction rows arbitrary: acc) simp_all

lemma write_rows_rendered:
  "rendered_table (write_rows rows st) =
     (if dataTableInstance st = None then map (map escapeHtml) rows else rows)"
  by (simp add: write_rows_def rendered_table_def foldl_snoc_map split: option.splits)

lemma write_rows_twice: "write_rows rows (write_rows rows st) = write_rows rows st"
  by (simp add: write_rows_def split: option.splits)

lemma buildTable_twice:
  "(case buildTable summary st of Inl e \<Rightarrow> Inl e | Inr st' \<Rightarrow> buildTable summary st') =
     buildTable summary st"
  by (simp add: buildTable_def write_rows_twice split: sum.splits)

lemma buildTable_stats_twice:
  "(case buildTable_stats summary st of Inl e \<Rightarrow> Inl e | Inr st' \<Rightarrow> buildTable_stats summary st') =
     buildTable_stats summary st"
  by (simp add: buildTable_stats_def write_rows_twice split: sum.splits)

lemma buildTable_replaces:
  "buildTable summary st = Inr st' \<Longrightarrow> summaryToRows summary = Inr rows \<Longrightarrow>
     rendered_table st' = (if dataTableInstance st = None then map (map escapeHtml) rows else rows)"
  by (auto simp: buildTable_def write_rows_rendered split: sum.splits)

lemma buildTable_rendered:
  "map_sum id rendered_table (buildTable summary st) =
     map_sum id (\<lambda>rows. if dataTableInstance st = None then map (map escapeHtml) rows else rows)
       (summaryToRows summary)"
  by (simp add: buildTable_def write_rows_rendered split: sum.splits)

lemma buildTable_stats_rendered:
  "map_sum id rendered_table (buildTable_stats summary st) =
     map_sum id (\<lambda>rows. if dataTableInstance st = None then map (map escapeHtml) rows else rows)
       (case summary_columns summary of Inl e \<Rightarrow> Inl e
        | Inr cols \<Rightarrow> map_err (table_row_stats summary) cols)"
  by (simp add: buildTable_stats_def write_rows_rendered split: sum.splits)

lemma summaryToRows_columns:
  "get summary ''columns'' = Inr (JArr cols) \<Longrightarrow>
     summaryToRows summary = Inr (map (table_row summary) cols)"
  by (simp add: summaryToRows_def summary_columns_def js_or_def)

lemma table_row_missing:
  "field (field summary ''data_types'') (String_js col) = JUndefined \<Longrightarrow>
   field (field summary ''missing_values'') (String_js col) = JUndefined \<Longrightarrow>
   field (field summary ''unique_counts'') (String_js col) = JUndefined \<Longrightarrow>
     table_row summary col = [String_js col, '''', ''0'', ''0'']"
  by (simp add: table_row_def per_column_def js_or_def int_text_def digits.simps)

text \<open>
  For a summary whose \<^verbatim>\<open>columns\<close> is an array, \<^verbatim>\<open>buildTable\<close> of part_000 does not throw and
  shows one row per entry of \<^verbatim>\<open>columns\<close>, in order, the first cell of each row being the name
  (escaped in the plain table body).
\<close>

lemma hd_table_row: "hd (table_row summary col) = String_js col"
  by (simp add: table_row_def)

lemma buildTable_one_row_per_column:
  assumes "get summary ''columns'' = Inr (JArr cols)"
  shows "\<exists>st'. buildTable summary st = Inr st' \<and>
           length (rendered_table st') = length cols \<and>
           map hd (rendered_table st') =
             (if dataTableInstance st = None then map (\<lambda>col. escapeHtml (String_js col)) cols
              else map String_js cols)"
proof -
  have rows: "summaryToRows summary = Inr (map (table_row summary) cols)"
    using assms by (rule summaryToRows_columns)
  have ne: "table_row summary col \<noteq> []" for col
    by (simp add: table_row_def)
  have "map hd (map (map escapeHtml) (map (table_row summary) cols)) =
          map (\<lambda>col. escapeHtml (String_js col)) cols"
    using ne by (simp add: hd_map hd_table_row)
  then show ?thesis
    by (simp add: buildTable_def rows write_rows_rendered hd_table_row comp_def)
qed

text \<open>
  Claim C8. Rendering is idempotent: building the table twice from the same summary leaves
  the page exactly as building it once does (also when the build throws), for both copies of
  \<^verbatim>\<open>buildTable\<close>; and the rows shown afterwards are the rows of the summary alone, whatever
  the table held before, so rows are replaced and never appended.
\<close>

theorem buildTable_idempotent:
  "(case buildTable summary st of Inl e \<Rightarrow> Inl e | Inr st' \<Rightarrow> buildTable summary st') =
     buildTable summary st \<and>
   (case buildTable_stats summary st of Inl e \<Rightarrow> Inl e | Inr st' \<Rightarrow> buildTable_stats summary st') =
     buildTable_stats summary st \<and>
   map_sum id rendered_table (buildTable summary st) =
     map_sum id (\<lambda>rows. if dataTableInstance st = None then map (map escapeHtml) rows else rows)
       (summaryToRows summary) \<and>
   map_sum id rendered_table (buildTable_stats summary st) =
     map_sum id (\<lambda>rows. if dataTableInstance st = None then map (map escapeHtml) rows else rows)
       (case summary_columns summary of Inl e \<Rightarrow> Inl e
        | Inr cols \<Rightarrow> map_err (table_row_stats summary) cols)"
  by (intro conjI buildTable_twice buildTable_stats_twice buildTable_rendered
      buildTable_stats_rendered)

section \<open>The retrying fetch\<close>

text \<open>
  The loop in closed form. If some attempt up to the last one succeeds and all attempts
  before it fail, the call returns the result of that attempt after exactly that many
  requests; if every attempt fails, it throws the error of the last one after
  \<open>retries + 1\<close> requests. Every request carries the timeout.
\<close>

lemma fetchLoop_success:
  "attempt \<le> k \<Longrightarrow> k \<le> retries \<Longrightarrow>
   (\<forall>j. attempt \<le> j \<and> j < k \<longrightarrow> (\<exists>e. attempt_once parse (net j) = Inl e)) \<Longrightarrow>
   attempt_once parse (net k) = Inr v \<Longrightarrow>
     fetchLoop parse net url timeout retries attempt lastErr sent =
       (Inr v, sent @ replicate (Suc k - attempt) (timed url timeout))"
proof (induction "k - attempt" arbitrary: attempt lastErr sent)
  case 0
  then have "attempt = k" by simp
  with 0 show ?case by (simp add: fetchLoop.simps timed_def)
next
  case (Suc d)
  then have lt: "attempt < k" by simp
  with Suc.prems obtain e where e: "attempt_once parse (net attempt) = Inl e" by auto
  have step: "fetchLoop parse net url timeout retries attempt lastErr sent =
      fetchLoop parse net url timeout retries (attempt + 1) (Some e) (sent @ [timed url timeout])"
    using lt Suc.prems(2) e by (subst fetchLoop.simps) (simp add: timed_def)
  have "d = k - (attempt + 1)" using Suc.hyps(2) by simp
  from Suc.hyps(1) [OF this, of "Some e" "sent @ [timed url timeout]"] lt Suc.prems
  have "fetchLoop parse net url timeout retries (attempt + 1) (Some e) (sent @ [timed url timeout]) =
      (Inr v, (sent @ [timed url timeout]) @ replicate (Suc k - (attempt + 1)) (timed url timeout))"
    by simp
  with step lt show ?case
    by (simp add: Suc_diff_le replicate_append_same flip: replicate_Suc)
qed

lemma fetchLoop_failure:
  "attempt \<le> retries \<Longrightarrow>
   (\<forall>j. attempt \<le> j \<and> j < retries \<longrightarrow> (\<exists>e. attempt_once parse (net j) = Inl e)) \<Longrightarrow>
   attempt_once parse (net retries) = Inl err \<Longrightarrow>
     fetchLoop parse net url timeout retries attempt lastErr sent =
       (Inl err, sent @ replicate (Suc retries - attempt) (timed url timeout))"
proof (induction "retries - attempt" arbitrary: attempt lastErr sent)
  case 0
  then have "attempt = retries" by simp
  with 0 show ?case by (simp add: fetchLoop.simps timed_def)
next
  case (Suc d)
  then have lt: "attempt < retries" by simp
  with Suc.prems obtain e where e: "attempt_once parse (net attempt) = Inl e" by auto
  have step: "fetchLoop parse net url timeout retries attempt lastErr sent =
      fetchLoop parse net url timeout retries (attempt + 1) (Some e) (sent @ [timed url timeout])"
    using lt e by (subst fetchLoop.simps) (simp add: timed_def)
  have "d = retries - (attempt + 1)" using Suc.hyps(2) by simp
  from Suc.hyps(1) [OF this, of "Some e" "sent @ [timed url timeout]"] lt Suc.prems
  have "fetchLoop parse net url timeout retries (attempt + 1) (Some e) (sent @ [timed url timeout]) =
      (Inl err, (sent @ [timed url timeout]) @ replicate (Suc retries - (attempt + 1)) (timed url timeout))"
    by simp
  with step lt show ?case
    by (simp add: Suc_diff_le replicate_append_same flip: replicate_Suc)
qed

text \<open>
  What an attempt makes of a response. For a response that is not ok the error carries the
  trimmed body text, or the status line when that is blank, whether or not the body is JSON.
\<close>

lemma read_body_not_ok:
  "\<not> ok status \<Longrightarrow>
     read_body parse status statusText text =
       Inl (Error (if trim text \<noteq> [] then trim text else server_error_text status statusText))"
  by (simp add: read_body_def parse_body_def split: sum.splits option.splits)

lemma read_body_ok:
  "ok status \<Longrightarrow>
     read_body parse status statusText text =
       Inr (if text = [] then JNull else case parse text of Some json \<Rightarrow> json | None \<Rightarrow> JStr text)"
  by (simp add: read_body_def parse_body_def split: sum.splits option.splits)

lemma attempt_boom: "attempt_once parse (Response 500 ''Internal Server Error'' ''boom'') = Inl (Error ''boom'')"
  by (simp add: attempt_once_def read_body_not_ok ok_def trim_def is_space_def)

lemma not_timeout_boom: "\<not> isTimeoutError (Error ''boom'')"
  by (simp add: isTimeoutError_def toLowerCase_def toLowerCase_char_def)

lemma attempt_success_true:
  \<open>attempt_once example_parse (Response 200 ''OK'' ''{"success":true}'') = Inr (JObj [(''success'', JBool True)])\<close>
  by (simp add: attempt_once_def read_body_ok ok_def example_parse_def)

text \<open>
  A request that is aborted once and succeeds on the second attempt yields that result after
  exactly two requests, whenever at least one retry is configured; and a call never sends
  more than \<open>retries + 1\<close> requests.
\<close>

lemma abort_then_success:
  "0 < retries \<Longrightarrow> net 0 = Aborted m \<Longrightarrow> attempt_once parse (net 1) = Inr v \<Longrightarrow>
     fetchWithTimeoutAndRetries parse net url timeout retries = (Inr v, [timed url timeout, timed url timeout])"
proof -
  assume r: "0 < retries" and a: "net 0 = Aborted m" and s: "attempt_once parse (net 1) = Inr v"
  have "\<forall>j. 0 \<le> j \<and> j < (1::nat) \<longrightarrow> (\<exists>e. attempt_once parse (net j) = Inl e)"
    using a by (simp add: attempt_once_def)
  from fetchLoop_success [OF _ _ this s, of retries url timeout None "[]"] r
  show ?thesis by (simp add: fetchWithTimeoutAndRetries_def numeral_2_eq_2)
qed

lemma fetch_attempts_bounded:
  "length (snd (fetchLoop parse net url timeout retries attempt lastErr sent)) \<le> length sent + (Suc retries - attempt)"
proof (induction parse net url timeout retries attempt lastErr sent rule: fetchLoop.induct)
  case (1 parse net url timeout retries attempt lastErr sent)
  show ?case
  proof (cases "attempt \<le> retries")
    case False
    then show ?thesis by (subst fetchLoop.simps) simp
  next
    case le: True
    show ?thesis
    proof (cases "attempt_once parse (net attempt)")
      case (Inr v)
      with le show ?thesis by (subst fetchLoop.simps) simp
    next
      case (Inl err)
      show ?thesis
      proof (cases "attempt < retries")
        case False
        with le Inl show ?thesis by (subst fetchLoop.simps) simp
      next
        case True
        from "1.IH"(2) [OF le Inl _ True] "1.IH"(1) [OF le Inl] True le Inl
        show ?thesis
          by (subst fetchLoop.simps) (cases "isTimeoutError err"; simp)
      qed
    qed
  qed
qed

lemma fetch_requests_bounded:
  "length (snd (fetchWithTimeoutAndRetries parse net url timeout retries)) \<le> retries + 1"
  using fetch_attempts_bounded [of parse net url timeout retries 0 None "[]"]
  by (simp add: fetchWithTimeoutAndRetries_def)

text \<open>
  Claim C1 at a failing input. As \<^verbatim>\<open>uploadFile\<close> calls it (timeout 30000, 2 retries),
  \<^verbatim>\<open>fetchWithTimeoutAndRetries\<close> receives HTTP 500 with the body \<^verbatim>\<open>boom\<close> and then HTTP 200.
  The first attempt ends with \<^verbatim>\<open>Error("boom")\<close>, which is no timeout, and yet the call
  makes a second attempt and returns its payload: the failure was retried. The last line is
  the other request of the claim: \<^verbatim>\<open>uploadFileAndRefresh\<close> always sends exactly one request,
  and it carries no timeout.
\<close>

theorem server_error_is_retried:
  \<open>fetchWithTimeoutAndRetries example_parse
      (script [Response 500 ''Internal Server Error'' ''boom'',
               Response 200 ''OK'' ''{"success":true}''] (Failed []))
      ''/upload'' 30000 2 =
     (Inr (JObj [(''success'', JBool True)]), [timed ''/upload'' 30000, timed ''/upload'' 30000]) \<and>
   attempt_once example_parse (Response 500 ''Internal Server Error'' ''boom'') = Inl (Error ''boom'') \<and>
   \<not> isTimeoutError (Error ''boom'') \<and>
   snd (uploadFileAndRefresh parse out file st) = [\<lparr>req_url = ''/upload'', req_timeout = None\<rparr>]\<close>
proof -
  let ?net = \<open>script [Response 500 ''Internal Server Error'' ''boom'',
               Response 200 ''OK'' ''{"success":true}''] (Failed [])\<close>
  have 0: "attempt_once example_parse (?net 0) = Inl (Error ''boom'')"
    by (simp add: script_def attempt_boom)
  have 1: \<open>attempt_once example_parse (?net 1) = Inr (JObj [(''success'', JBool True)])\<close>
    by (simp add: script_def attempt_success_true)
  have "\<forall>j. 0 \<le> j \<and> j < (1::nat) \<longrightarrow> (\<exists>e. attempt_once example_parse (?net j) = Inl e)"
    using 0 by simp
  from fetchLoop_success [OF _ _ this 1, of 2 "''/upload''" 30000 None "[]"]
  have \<open>fetchWithTimeoutAndRetries example_parse ?net ''/upload'' 30000 2 =
     (Inr (JObj [(''success'', JBool True)]), [timed ''/upload'' 30000, timed ''/upload'' 30000])\<close>
    by (simp add: fetchWithTimeoutAndRetries_def numeral_2_eq_2)
  moreover have "snd (uploadFileAndRefresh parse out file st) = [\<lparr>req_url = ''/upload'', req_timeout = None\<rparr>]"
    by (simp add: uploadFileAndRefresh_def plain_request_def Let_def)
  ultimately show ?thesis
    using attempt_boom not_timeout_boom by simp
qed

section \<open>Upload failures on the upload page\<close>

text \<open>
  \<^verbatim>\<open>uploadFile\<close> in terms of what the fetch helper ends with: an error goes to the \<^verbatim>\<open>catch\<close>
  callback, a payload to the \<^verbatim>\<open>then\<close> callback. The \<^verbatim>\<open>catch\<close> callback and the start of the
  upload leave the held summary and the rendered regions as they are.
\<close>

lemma uploadFile_error:
  "fst (fetchWithTimeoutAndRetries parse net ''/upload'' 30000 2) = Inl err \<Longrightarrow>
     fst (uploadFile parse net onLine file st) = upload_catch onLine err (uploading st)"
  by (simp add: uploadFile_def uploading_def Let_def)

lemma uploadFile_data:
  "fst (fetchWithTimeoutAndRetries parse net ''/upload'' 30000 2) = Inr data \<Longrightarrow>
     fst (uploadFile parse net onLine file st) =
       (case upload_then parse (file_name file) data (uploading st) of
          (None, st') \<Rightarrow> st' | (Some err, st') \<Rightarrow> upload_catch onLine err st')"
  by (simp add: uploadFile_def uploading_def Let_def)

lemma upload_catch_text:
  "error_text (upload_catch onLine err st) =
     (if \<not> onLine then offline_text
      else if err_message err \<noteq> [] then err_message err
      else ''Network error. Please try again.'')"
  by (simp add: upload_catch_def showError_def js_or_def offline_text_def Let_def)

lemma upload_catch_keeps:
  "currentSummary (upload_catch onLine err st) = currentSummary st \<and>
   currentFilename (upload_catch onLine err st) = currentFilename st \<and>
   summary_info (upload_catch onLine err st) = summary_info st \<and>
   columns_table (upload_catch onLine err st) = columns_table st \<and>
   sample_table (upload_catch onLine err st) = sample_table st \<and>
   \<not> error_hidden (upload_catch onLine err st)"
  by (simp add: upload_catch_def showError_def Let_def)

lemma uploading_keeps:
  "currentSummary (uploading st) = currentSummary st \<and>
   currentFilename (uploading st) = currentFilename st \<and>
   summary_info (uploading st) = summary_info st \<and>
   columns_table (uploading st) = columns_table st \<and>
   sample_table (uploading st) = sample_table st"
  by (simp add: uploading_def hideError_def)

lemma trim_disk_full: \<open>trim ''{"error":"disk full"}'' = ''{"error":"disk full"}''\<close>
  by (simp add: trim_def is_space_def)

lemma attempt_disk_full:
  \<open>attempt_once parse (Response 500 ''Internal Server Error'' ''{"error":"disk full"}'') =
     Inl (Error ''{"error":"disk full"}'')\<close>
  by (simp add: attempt_once_def read_body_not_ok ok_def trim_disk_full)

lemma fetch_disk_full:
  \<open>fetchWithTimeoutAndRetries parse (script [] (Response 500 ''Internal Server Error'' ''{"error":"disk full"}''))
      ''/upload'' 30000 2 =
     (Inl (Error ''{"error":"disk full"}''), [timed ''/upload'' 30000, timed ''/upload'' 30000, timed ''/upload'' 30000])\<close>
proof -
  let ?net = \<open>script [] (Response 500 ''Internal Server Error'' ''{"error":"disk full"}'')\<close>
  have a: \<open>attempt_once parse (?net k) = Inl (Error ''{"error":"disk full"}'')\<close> for k
    by (simp add: script_def attempt_disk_full)
  then have "\<forall>j. 0 \<le> j \<and> j < 2 \<longrightarrow> (\<exists>e. attempt_once parse (?net j) = Inl e)"
    by simp
  from fetchLoop_failure [OF _ this a, of "''/upload''" 30000 None "[]"]
  show ?thesis
    by (simp add: fetchWithTimeoutAndRetries_def numeral_3_eq_3 numeral_2_eq_2)
qed

text \<open>
  Claim C4 at a failing input. Every attempt of the upload is answered with HTTP 500 and the
  body \<^verbatim>\<open>{"error":"disk full"}\<close>, the runtime being online. For every parser, file and page,
  \<^verbatim>\<open>uploadFile\<close> of part_004 shows the raw body text and not \<^verbatim>\<open>disk full\<close>: the \<^verbatim>\<open>Error\<close>
  built from the \<^verbatim>\<open>error\<close> field is thrown inside the \<^verbatim>\<open>try\<close> block whose own \<^verbatim>\<open>catch\<close>
  replaces it. The held summary and the rendered tables are unchanged (the results panel,
  hidden when the upload starts, stays hidden), and three requests were sent. The last line is
  \<^verbatim>\<open>uploadFileAndRefresh\<close> on the same response, which shows \<^verbatim>\<open>disk full\<close>.
\<close>

theorem uploadFile_disk_full:
  \<open>error_text (fst (uploadFile parse
       (script [] (Response 500 ''Internal Server Error'' ''{"error":"disk full"}'')) True file st)) =
     ''{"error":"disk full"}'' \<and>
   error_text (fst (uploadFile parse
       (script [] (Response 500 ''Internal Server Error'' ''{"error":"disk full"}'')) True file st)) \<noteq>
     ''disk full'' \<and>
   currentSummary (fst (uploadFile parse
       (script [] (Response 500 ''Internal Server Error'' ''{"error":"disk full"}'')) True file st)) =
     currentSummary st \<and>
   columns_table (fst (uploadFile parse
       (script [] (Response 500 ''Internal Server Error'' ''{"error":"disk full"}'')) True file st)) =
     columns_table st \<and>
   sample_table (fst (uploadFile parse
       (script [] (Response 500 ''Internal Server Error'' ''{"error":"disk full"}'')) True file st)) =
     sample_table st \<and>
   snd (uploadFile parse
       (script [] (Response 500 ''Internal Server Error'' ''{"error":"disk full"}'')) True file st) =
     [timed ''/upload'' 30000, timed ''/upload'' 30000, timed ''/upload'' 30000] \<and>
   upload_status (snd (fst (uploadFileAndRefresh example_parse
       (Response 500 ''Internal Server Error'' ''{"error":"disk full"}'') file page))) = ''disk full''\<close>
proof -
  let ?net = \<open>script [] (Response 500 ''Internal Server Error'' ''{"error":"disk full"}'')\<close>
  have f: \<open>fst (fetchWithTimeoutAndRetries parse ?net ''/upload'' 30000 2) = Inl (Error ''{"error":"disk full"}'')\<close>
    by (simp add: fetch_disk_full)
  have s: \<open>snd (uploadFile parse ?net True file st) =
     [timed ''/upload'' 30000, timed ''/upload'' 30000, timed ''/upload'' 30000]\<close>
    by (simp add: uploadFile_def Let_def fetch_disk_full)
  have u: \<open>upload_status (snd (fst (uploadFileAndRefresh example_parse
       (Response 500 ''Internal Server Error'' ''{"error":"disk full"}'') file page))) = ''disk full''\<close>
    by (simp add: uploadFileAndRefresh_def example_parse_def ok_def upload_rejected_def field_def Let_def)
  show ?thesis
    using s u by (simp add: uploadFile_error [OF f] upload_catch_text upload_catch_keeps uploading_keeps)
qed

text \<open>
  A property name that does not start with a digit is no array index, so a string, a number
  and a boolean have no such property.
\<close>

lemma digits_are_digits: "set (digits n) \<subseteq> set ''0123456789''"
proof (induction n rule: digits.induct)
  case (1 n)
  show ?case
  proof (cases "n < 10")
    case True
    then have "n \<in> {0, 1, 2, 3, 4, 5, 6, 7, 8, 9}" by auto
    then show ?thesis by (subst digits.simps) auto
  next
    case False
    have "n mod 10 \<in> {0, 1, 2, 3, 4, 5, 6, 7, 8, 9}" by (simp add: mod_simps) presburger
    then have "''0123456789'' ! (n mod 10) \<in> set ''0123456789''" by auto
    with False "1.IH" show ?thesis by (subst digits.simps) simp
  qed
qed

lemma array_index_name:
  "k \<noteq> [] \<Longrightarrow> hd k \<notin> set ''0123456789'' \<Longrightarrow> array_index k n = None"
proof -
  assume k: "k \<noteq> []" and h: "hd k \<notin> set ''0123456789''"
  have "digits i \<noteq> k" for i
  proof
    assume "digits i = k"
    with k have "hd k \<in> set (digits i)" by (metis hd_in_set)
    with digits_are_digits [of i] h show False by blast
  qed
  then show ?thesis by (simp add: array_index_def find_None_iff)
qed

lemma field_JStr_name:
  "k \<noteq> [] \<Longrightarrow> hd k \<notin> set ''0123456789'' \<Longrightarrow> field (JStr s) k = JUndefined"
  by (simp add: field_def array_index_name)

lemma field_primitive: "field (JBool b) k = JUndefined" "field (JNum n) k = JUndefined"
  by (simp_all add: field_def)

lemma upload_then_protocol:
  "\<not> (truthy data \<and> truthy (field data ''success'')) \<Longrightarrow> (\<forall>text. data \<noteq> JStr text) \<Longrightarrow>
     upload_then parse name data st =
       (None, showError (js_or (if truthy data then field data ''error'' else data) unexpected)
                (st\<lparr>loading_hidden := True\<rparr>))"
  by (cases data) (simp_all add: upload_then_def Let_def field_primitive)

lemma upload_then_text:
  "parse text = None \<Longrightarrow>
     upload_then parse name (JStr text) st =
       (None, showError (js_or (JStr text) unexpected) (st\<lparr>loading_hidden := True\<rparr>))"
  by (simp add: upload_then_def Let_def field_JStr_name)

lemma protocol_text:
  "String_js (js_or (if truthy data then field data ''error'' else data) unexpected) =
     (if truthy data \<and> truthy (field data ''error'') then String_js (field data ''error'')
      else ''Unexpected server response'')"
  by (simp add: js_or_def unexpected_def)

lemma uploadFile_protocol:
  assumes "fst (fetchWithTimeoutAndRetries parse net ''/upload'' 30000 2) = Inr data"
    and "\<not> (truthy data \<and> truthy (field data ''success''))" and "\<forall>text. data \<noteq> JStr text"
  shows "error_text (fst (uploadFile parse net onLine file st)) =
           (if truthy data \<and> truthy (field data ''error'') then String_js (field data ''error'')
            else ''Unexpected server response'') \<and>
         \<not> error_hidden (fst (uploadFile parse net onLine file st)) \<and>
         currentSummary (fst (uploadFile parse net onLine file st)) = currentSummary st"
  using assms(2,3)
  by (simp add: uploadFile_data [OF assms(1)] upload_then_protocol showError_def
      protocol_text uploading_keeps del: truthy.simps)

lemma uploadFile_text:
  assumes "fst (fetchWithTimeoutAndRetries parse net ''/upload'' 30000 2) = Inr (JStr text)"
    and "parse text = None"
  shows "error_text (fst (uploadFile parse net onLine file st)) =
           (if text \<noteq> [] then text else ''Unexpected server response'') \<and>
         \<not> error_hidden (fst (uploadFile parse net onLine file st)) \<and>
         currentSummary (fst (uploadFile parse net onLine file st)) = currentSummary st"
  using assms(2)
  by (simp add: uploadFile_data [OF assms(1)] upload_then_text showError_def js_or_def
      unexpected_def uploading_keeps)

lemma uploadFile_thrown:
  assumes "fst (fetchWithTimeoutAndRetries parse net ''/upload'' 30000 2) = Inl err"
  shows "error_text (fst (uploadFile parse net onLine file st)) =
           (if \<not> onLine then offline_text
            else if err_message err \<noteq> [] then err_message err
            else ''Network error. Please try again.'') \<and>
         \<not> error_hidden (fst (uploadFile parse net onLine file st)) \<and>
         currentSummary (fst (uploadFile parse net onLine file st)) = currentSummary st"
  by (simp add: uploadFile_error [OF assms] upload_catch_text upload_catch_keeps uploading_keeps)

lemma attempt_unparsed_error:
  "\<not> ok status \<Longrightarrow>
     attempt_once parse (Response status statusText text) =
       Inl (Error (if trim text \<noteq> [] then trim text else server_error_text status statusText))"
  by (simp add: attempt_once_def read_body_not_ok)

text \<open>
  Claim C6, as the code has it. For an upload through \<^verbatim>\<open>uploadFile\<close> of part_004:
  \<^item> when the fetch helper ends with an error (timeout, network error, response that is not
    ok), the message is the fixed offline text if the runtime reports offline, otherwise the
    message of the error, or \<^verbatim>\<open>Network error. Please try again.\<close> if that is empty;
  \<^item> the error for a response that is not ok and whose body is empty or is not JSON has the
    trimmed body text as its message, or \<^verbatim>\<open>Server error\<close> with the status and status text
    when the trimmed text is empty;
  \<^item> when the helper returns a payload that is not a string and has no truthy \<^verbatim>\<open>success\<close>,
    the message is the payload's \<^verbatim>\<open>error\<close> field if that is truthy, otherwise
    \<^verbatim>\<open>Unexpected server response\<close>;
  \<^item> when the helper returns a body text that is not JSON, the message is that text.
  In each case the alert is visible and the held summary is unchanged.
\<close>

theorem uploadFile_status_message:
  "(\<forall>err. fst (fetchWithTimeoutAndRetries parse net ''/upload'' 30000 2) = Inl err \<longrightarrow>
      error_text (fst (uploadFile parse net onLine file st)) =
        (if \<not> onLine then offline_text
         else if err_message err \<noteq> [] then err_message err
         else ''Network error. Please try again.'') \<and>
      \<not> error_hidden (fst (uploadFile parse net onLine file st)) \<and>
      currentSummary (fst (uploadFile parse net onLine file st)) = currentSummary st) \<and>
   (\<forall>status statusText text. \<not> ok status \<longrightarrow> (text = [] \<or> parse text = None) \<longrightarrow>
      attempt_once parse (Response status statusText text) =
        Inl (Error (if trim text \<noteq> [] then trim text
                    else server_error_text status statusText))) \<and>
   (\<forall>data. fst (fetchWithTimeoutAndRetries parse net ''/upload'' 30000 2) = Inr data \<longrightarrow>
      \<not> (truthy data \<and> truthy (field data ''success'')) \<longrightarrow> (\<forall>text. data \<noteq> JStr text) \<longrightarrow>
      error_text (fst (uploadFile parse net onLine file st)) =
        (if truthy data \<and> truthy (field data ''error'') then String_js (field data ''error'')
         else ''Unexpected server response'') \<and>
      \<not> error_hidden (fst (uploadFile parse net onLine file st)) \<and>
      currentSummary (fst (uploadFile parse net onLine file st)) = currentSummary st) \<and>
   (\<forall>text. fst (fetchWithTimeoutAndRetries parse net ''/upload'' 30000 2) = Inr (JStr text) \<longrightarrow>
      parse text = None \<longrightarrow>
      error_text (fst (uploadFile parse net onLine file st)) =
        (if text \<noteq> [] then text else ''Unexpected server response'') \<and>
      \<not> error_hidden (fst (uploadFile parse net onLine file st)) \<and>
      currentSummary (fst (uploadFile parse net onLine file st)) = currentSummary st)"
proof -
  have 1: "\<forall>err. fst (fetchWithTimeoutAndRetries parse net ''/upload'' 30000 2) = Inl err \<longrightarrow>
      error_text (fst (uploadFile parse net onLine file st)) =
        (if \<not> onLine then offline_text
         else if err_message err \<noteq> [] then err_message err
         else ''Network error. Please try again.'') \<and>
      \<not> error_hidden (fst (uploadFile parse net onLine file st)) \<and>
      currentSummary (fst (uploadFile parse net onLine file st)) = currentSummary st"
    by (intro allI impI) (rule uploadFile_thrown)
  have 2: "\<forall>status statusText text. \<not> ok status \<longrightarrow> (text = [] \<or> parse text = None) \<longrightarrow>
      attempt_once parse (Response status statusText text) =
        Inl (Error (if trim text \<noteq> [] then trim text
                    else server_error_text status statusText))"
    by (intro allI impI) (rule attempt_unparsed_error)
  have 3: "\<forall>data. fst (fetchWithTimeoutAndRetries parse net ''/upload'' 30000 2) = Inr data \<longrightarrow>
      \<not> (truthy data \<and> truthy (field data ''success'')) \<longrightarrow> (\<forall>text. data \<noteq> JStr text) \<longrightarrow>
      error_text (fst (uploadFile parse net onLine file st)) =
        (if truthy data \<and> truthy (field data ''error'') then String_js (field data ''error'')
         else ''Unexpected server response'') \<and>
      \<not> error_hidden (fst (uploadFile parse net onLine file st)) \<and>
      currentSummary (fst (uploadFile parse net onLine file st)) = currentSummary st"
    by (intro allI impI) (rule uploadFile_protocol)
  have 4: "\<forall>text. fst (fetchWithTimeoutAndRetries parse net ''/upload'' 30000 2) = Inr (JStr text) \<longrightarrow>
      parse text = None \<longrightarrow>
      error_text (fst (uploadFile parse net onLine file st)) =
        (if text \<noteq> [] then text else ''Unexpected server response'') \<and>
      \<not> error_hidden (fst (uploadFile parse net onLine file st)) \<and>
      currentSummary (fst (uploadFile parse net onLine file st)) = currentSummary st"
    by (intro allI impI) (rule uploadFile_text)
  from 1 2 3 4 show ?thesis by (intro conjI)
qed


lemma fetch_all_ok:
  "attempt_once parse (net 0) = Inr v \<Longrightarrow>
     fetchWithTimeoutAndRetries parse net url timeout retries = (Inr v, [timed url timeout])"
  using fetchLoop_success [of 0 0 retries parse net v url timeout None "[]"]
  by (simp add: fetchWithTimeoutAndRetries_def)

lemma fetch_all_fail:
  "(\<And>k. attempt_once parse (net k) = Inl err) \<Longrightarrow>
     fst (fetchWithTimeoutAndRetries parse net url timeout retries) = Inl err"
  using fetchLoop_failure [of 0 retries parse net err url timeout None "[]"]
  by (simp add: fetchWithTimeoutAndRetries_def)

lemma attempt_success_false:
  \<open>attempt_once example_parse (Response 200 ''OK'' ''{"success":false}'') =
     Inr (JObj [(''success'', JBool False)])\<close>
  by (simp add: attempt_once_def read_body_ok ok_def example_parse_def)

lemma fetch_success_false:
  \<open>fst (fetchWithTimeoutAndRetries example_parse (script [Response 200 ''OK'' ''{"success":false}''] (Failed []))
      ''/upload'' 30000 2) = Inr (JObj [(''success'', JBool False)])\<close>
  by (simp add: fetch_all_ok script_def attempt_success_false)

text \<open>
  Against the priority order of claim C6: a response with HTTP 200 and the body
  \<^verbatim>\<open>{"success":false}\<close> has no \<^verbatim>\<open>error\<close> field and a raw text that is not blank, yet the
  message shown is \<^verbatim>\<open>Unexpected server response\<close> and not that text.
\<close>

theorem uploadFile_success_false_text:
  \<open>error_text (fst (uploadFile example_parse
      (script [Response 200 ''OK'' ''{"success":false}''] (Failed [])) True example_file empty_page)) =
     ''Unexpected server response'' \<and>
   field (JObj [(''success'', JBool False)]) ''error'' = JUndefined \<and>
   trim ''{"success":false}'' = ''{"success":false}'' \<and>
   ''Unexpected server response'' \<noteq> ''{"success":false}''\<close>
proof -
  have \<open>error_text (fst (uploadFile example_parse
      (script [Response 200 ''OK'' ''{"success":false}''] (Failed [])) True example_file empty_page)) =
     ''Unexpected server response''\<close>
    using uploadFile_protocol [OF fetch_success_false, of True example_file empty_page]
    by (simp add: field_def)
  then show ?thesis
    by (simp add: field_def trim_def is_space_def)
qed

lemma attempt_failed: "attempt_once parse (Failed m) = Inl (FetchError m)"
  by (simp add: attempt_once_def)

lemma fetch_failed:
  "fst (fetchWithTimeoutAndRetries parse (script [] (Failed m)) url timeout retries) = Inl (FetchError m)"
  by (rule fetch_all_fail) (simp add: script_def attempt_failed)

lemma attempt_html:
  \<open>attempt_once example_parse (Response 200 ''OK'' ''<html>'') = Inr (JStr ''<html>'')\<close>
  by (simp add: attempt_once_def read_body_ok ok_def example_parse_def)

lemma fetch_html:
  \<open>fst (fetchWithTimeoutAndRetries example_parse (script [Response 200 ''OK'' ''<html>''] (Failed []))
      ''/upload'' 30000 2) = Inr (JStr ''<html>'')\<close>
  by (simp add: fetch_all_ok script_def attempt_html)

theorem uploadFile_status_message_witness:
  \<open>(fst (fetchWithTimeoutAndRetries example_parse (script [] (Failed ''Failed to fetch'')) ''/upload'' 30000 2) =
      Inl (FetchError ''Failed to fetch'') \<and>
    error_text (fst (uploadFile example_parse (script [] (Failed ''Failed to fetch'')) False example_file empty_page)) =
      offline_text \<and>
    error_text (fst (uploadFile example_parse (script [] (Failed ''Failed to fetch'')) True example_file empty_page)) =
      ''Failed to fetch'') \<and>
   (\<not> ok 502 \<and> example_parse '' upstream down '' = None \<and>
    attempt_once example_parse (Response 502 ''Bad Gateway'' '' upstream down '') =
      Inl (Error ''upstream down'')) \<and>
   (fst (fetchWithTimeoutAndRetries example_parse
          (script [Response 200 ''OK'' ''{"success":false}''] (Failed [])) ''/upload'' 30000 2) =
      Inr (JObj [(''success'', JBool False)]) \<and>
    \<not> (truthy (JObj [(''success'', JBool False)]) \<and>
        truthy (field (JObj [(''success'', JBool False)]) ''success'')) \<and>
    \<not> error_hidden (fst (uploadFile example_parse
          (script [Response 200 ''OK'' ''{"success":false}''] (Failed [])) True example_file empty_page))) \<and>
   (fst (fetchWithTimeoutAndRetries example_parse
          (script [Response 200 ''OK'' ''<html>''] (Failed [])) ''/upload'' 30000 2) =
      Inr (JStr ''<html>'') \<and>
    example_parse ''<html>'' = None \<and>
    error_text (fst (uploadFile example_parse
          (script [Response 200 ''OK'' ''<html>''] (Failed [])) True example_file empty_page)) = ''<html>'')\<close>
proof -
  have a: "fst (fetchWithTimeoutAndRetries example_parse (script [] (Failed ''Failed to fetch'')) ''/upload'' 30000 2) =
      Inl (FetchError ''Failed to fetch'')"
    by (rule fetch_failed)
  note t1 = uploadFile_status_message [of example_parse "script [] (Failed ''Failed to fetch'')" False
      example_file empty_page, THEN conjunct1, rule_format, OF a]
  note t2 = uploadFile_status_message [of example_parse "script [] (Failed ''Failed to fetch'')" True
      example_file empty_page, THEN conjunct1, rule_format, OF a]
  have b1: "\<not> ok 502" by (simp add: ok_def)
  have b2: "example_parse '' upstream down '' = None" by (simp add: example_parse_def)
  note t3 = uploadFile_status_message [of example_parse "script [] (Failed [])" True example_file
      empty_page, THEN conjunct2, THEN conjunct1, rule_format, OF b1 disjI2, OF b2,
      of "''Bad Gateway''"]
  have c2: \<open>\<not> (truthy (JObj [(''success'', JBool False)]) \<and>
        truthy (field (JObj [(''success'', JBool False)]) ''success''))\<close>
    by (simp add: field_def)
  have c3: \<open>JObj [(''success'', JBool False)] \<noteq> JStr t\<close> for t by simp
  note t4 = uploadFile_status_message [of example_parse
      \<open>script [Response 200 ''OK'' ''{"success":false}''] (Failed [])\<close> True example_file empty_page,
      THEN conjunct2, THEN conjunct2, THEN conjunct1, rule_format, OF fetch_success_false c2 c3]
  have d2: "example_parse ''<html>'' = None" by (simp add: example_parse_def)
  note t5 = uploadFile_status_message [of example_parse
      \<open>script [Response 200 ''OK'' ''<html>''] (Failed [])\<close> True example_file empty_page,
      THEN conjunct2, THEN conjunct2, THEN conjunct2, rule_format, OF fetch_html d2]
  have tr: "trim '' upstream down '' = ''upstream down''" by (simp add: trim_def is_space_def)
  show ?thesis
    using t1 t2 t3 t4 t5 a b1 b2 c2 d2 fetch_success_false fetch_html
    by (simp add: tr)
qed


text \<open>
  A payload that says \<^verbatim>\<open>success\<close> and carries no summary: the held summary is overwritten with
  \<^verbatim>\<open>undefined\<close> before rendering throws, and the TypeError is what the alert shows.
\<close>

lemma attempt_success_true_only:
  \<open>fst (fetchWithTimeoutAndRetries example_parse (script [Response 200 ''OK'' ''{"success":true}''] (Failed []))
      ''/upload'' 30000 2) = Inr (JObj [(''success'', JBool True)])\<close>
  by (simp add: fetch_all_ok script_def attempt_success_true)

lemma uploadFile_success_without_summary:
  \<open>currentSummary (fst (uploadFile example_parse
      (script [Response 200 ''OK'' ''{"success":true}''] (Failed [])) True example_file st)) = JUndefined \<and>
   error_text (fst (uploadFile example_parse
      (script [Response 200 ''OK'' ''{"success":true}''] (Failed [])) True example_file st)) =
     err_message (ReadOfNullish ''undefined'' ''shape'')\<close>
  by (simp add: uploadFile_data [OF attempt_success_true_only] upload_then_def accept_summary_def
      displayResults_def render_results_def summary_info_texts_def field_def Let_def
      upload_catch_def showError_def js_or_def)


section \<open>File validation\<close>

text \<open>
  \<^verbatim>\<open>handleFiles\<close> of script.js sends one request for a file whose name matches and whose
  size is at most 10 MB, and otherwise shows one of its two messages and sends nothing.
\<close>

lemma snd_uploadFileAndRefresh:
  "snd (uploadFileAndRefresh parse out file st) = [plain_request ''/upload'']"
  by (simp add: uploadFileAndRefresh_def Let_def)

lemma snd_uploadFile_phase1:
  "snd (uploadFile_phase1 parse out file st) = [plain_request ''/upload'']"
  by (simp add: uploadFile_phase1_def Let_def)

lemma handleFiles_phase1_requests:
  "snd (handleFiles_phase1 parse out (file # others) st) =
     (if name_matches (file_name file) \<and> file_size file \<le> 10 * 1024 * 1024
      then [plain_request ''/upload''] else [])"
  by (simp add: handleFiles_phase1_def snd_uploadFile_phase1 not_less)

lemma handleFiles_phase1_rejects:
  "\<not> (name_matches (file_name file) \<and> file_size file \<le> 10 * 1024 * 1024) \<Longrightarrow>
     \<not> error_hidden (fst (handleFiles_phase1 parse out (file # others) st)) \<and>
     error_text (fst (handleFiles_phase1 parse out (file # others) st)) \<in>
       {''Please upload a .csv or .xlsx file.'', ''File size must be under 10MB.''}"
  by (auto simp: handleFiles_phase1_def showError_def)

lemma name_matches_txt: "\<not> name_matches ''x.txt''"
  by (simp add: name_matches_def endsWith_def toLowerCase_def toLowerCase_char_def)

text \<open>
  Claim C2 at a failing input. A file named \<^verbatim>\<open>x.txt\<close> of 11 MB is selected on the summary
  page and the upload button is clicked: whatever the server answers, one request to
  \<^verbatim>\<open>/upload\<close> is sent, although the name matches neither extension and the size exceeds
  10 MB. The last line is \<^verbatim>\<open>handleFiles\<close> of script.js on the same file: a validation
  message and no request.
\<close>

theorem upload_click_sends_unchecked_file:
  "snd (upload_click parse out [unchecked_file] st) = [\<lparr>req_url = ''/upload'', req_timeout = None\<rparr>] \<and>
   \<not> name_matches (file_name unchecked_file) \<and>
   \<not> file_size unchecked_file \<le> 10 * 1024 * 1024 \<and>
   handleFiles_phase1 parse out [unchecked_file] page =
     (showError (JStr ''Please upload a .csv or .xlsx file.'') page, [])"
  by (simp add: upload_click_def snd_uploadFileAndRefresh plain_request_def unchecked_file_def
      name_matches_txt handleFiles_phase1_def)

section \<open>Loading the summary\<close>

lemma fetchSummary_response:
  "fetchSummary parse (Response status statusText text) =
     (case parse text of
        Some payload \<Rightarrow>
          if ok status \<and> truthy (field payload ''success'') then (field payload ''summary'', [])
          else (JNull,
                [if \<not> ok status then Error (''Server returned '' @ digits status)
                 else case get payload ''success'' of
                        Inl e \<Rightarrow> e
                      | Inr s \<Rightarrow> Error (String_js (js_or (field payload ''error'') (JStr ''No summary'')))])
      | None \<Rightarrow>
          (JNull, [if \<not> ok status then Error (''Server returned '' @ digits status) else SyntaxError]))"
  by (cases "get (the (parse text)) ''success''")
     (auto simp: fetchSummary_def fetchSummary_try_def field_def split: option.splits sum.splits)

text \<open>
  Claim C7, as the code has it. For every response to \<^verbatim>\<open>GET /summary-data\<close>,
  \<^verbatim>\<open>fetchSummary\<close> returns the summary of the payload, with nothing logged, exactly when
  the response is ok, its body parses and the payload's \<^verbatim>\<open>success\<close> is truthy (which
  \<^verbatim>\<open>true\<close> is, and \<^verbatim>\<open>false\<close> and a missing field are not); in every other case (status not
  ok, \<^verbatim>\<open>success\<close> falsy or missing, network error, body that does not parse) it returns
  \<^verbatim>\<open>null\<close> and logs one error. The function has the console as its only effect, so no
  failure reaches the page.
\<close>

theorem fetchSummary_returns:
  "(case out of
      Response status statusText text \<Rightarrow>
        (case parse text of
           Some payload \<Rightarrow>
             if ok status \<and> truthy (field payload ''success'')
             then fetchSummary parse out = (field payload ''summary'', [])
             else fst (fetchSummary parse out) = JNull \<and> length (snd (fetchSummary parse out)) = 1
         | None \<Rightarrow> fst (fetchSummary parse out) = JNull \<and> length (snd (fetchSummary parse out)) = 1)
    | _ \<Rightarrow> fst (fetchSummary parse out) = JNull \<and> length (snd (fetchSummary parse out)) = 1) \<and>
   truthy (JBool True) \<and> \<not> truthy (JBool False) \<and> \<not> truthy JUndefined"
  by (cases out) (simp_all add: fetchSummary_response split: option.splits,
      simp_all add: fetchSummary_def fetchSummary_try_def)

text \<open>
  Against claim C7 as it is worded: the test of line 45, \<^verbatim>\<open>if (!payload.success)\<close>, is a
  test for truthiness. An ok response whose \<^verbatim>\<open>success\<close> is the number 1, or the string
  \<^verbatim>\<open>false\<close>, has no \<^verbatim>\<open>success:true\<close>, and yet the summary is returned, with nothing
  logged, and not \<^verbatim>\<open>null\<close>.
\<close>

theorem fetchSummary_truthy_success:
  \<open>fetchSummary summary_parse (Response 200 ''OK'' ''{"success":1,"summary":{"columns":[]}}'') =
     (JObj [(''columns'', JArr [])], []) \<and>
   field (JObj [(''success'', JNum (Fin 1)), (''summary'', JObj [(''columns'', JArr [])])])
     ''success'' \<noteq> JBool True \<and>
   fetchSummary summary_parse
       (Response 200 ''OK'' ''{"success":"false","summary":{"columns":[]}}'') =
     (JObj [(''columns'', JArr [])], []) \<and>
   field (JObj [(''success'', JStr ''false''), (''summary'', JObj [(''columns'', JArr [])])])
     ''success'' \<noteq> JBool True \<and>
   JObj [(''columns'', JArr [])] \<noteq> JNull\<close>
  by (simp add: fetchSummary_def fetchSummary_try_def summary_parse_def ok_def field_def)


section \<open>Rendering the results\<close>

lemmas render_defs =
  displayResults_def displayResults_phase1_def render_results_def summary_info_texts_def
  forEach_items_def columns_row_def sample_row_def field_def Let_def

lemma array_index_0: "0 < n \<Longrightarrow> array_index ''0'' n = Some 0"
  by (cases n) (simp_all add: array_index_def upt_rec digits.simps)

lemma array_index_1: "1 < n \<Longrightarrow> array_index ''1'' n = Some 1"
  by (cases n; simp add: array_index_def upt_rec digits.simps)+

text \<open>
  Claim C3 at two failing inputs. For a summary without \<^verbatim>\<open>data_types\<close>, \<^verbatim>\<open>displayResults\<close>
  of part_004 throws a TypeError at \<^verbatim>\<open>summary.data_types[col]\<close> and the columns table is
  not rendered; for a summary whose three maps are empty it renders the text
  \<^verbatim>\<open>undefined\<close> in the three cells. \<^verbatim>\<open>buildTable\<close> renders the row
  \<^verbatim>\<open>a, "", 0, 0\<close> for both summaries.
\<close>

theorem displayResults_unguarded_maps:
  \<open>fst (displayResults summary_without_types st) = Some (ReadOfNullish ''undefined'' ''a'') \<and>
   columns_table (snd (displayResults summary_without_types st)) = columns_table st \<and>
   buildTable summary_without_types page = Inr (write_rows [[''a'', '''', ''0'', ''0'']] page) \<and>
   fst (displayResults summary_omitting_keys st) = None \<and>
   columns_table (snd (displayResults summary_omitting_keys st)) =
     [[''a'', ''<code>undefined</code>'', ''<span class="badge bg-warning">undefined</span>'',
       ''undefined'']] \<and>
   buildTable summary_omitting_keys page = Inr (write_rows [[''a'', '''', ''0'', ''0'']] page)\<close>
  by (simp add: render_defs summary_without_types_def summary_omitting_keys_def array_index_0
      array_index_1 buildTable_def summaryToRows_def summary_columns_def table_row_def
      per_column_def js_or_def int_text_def digits.simps)

text \<open>
  Claim C10 at a failing input. For a sample row without a value for the column and a row
  whose value contains markup, \<^verbatim>\<open>displayResults\<close> of script.js renders the text
  \<^verbatim>\<open>undefined\<close> and the markup as it is; \<^verbatim>\<open>displayResults\<close> of part_004 renders the
  placeholder and the escaped text.
\<close>

theorem displayResults_phase1_raw_cells:
  \<open>sample_table (snd (displayResults_phase1 summary_with_sample st)) =
     ([''a''], [[''undefined''], [''<b>x</b>'']]) \<and>
   sample_table (snd (displayResults summary_with_sample st)) =
     ([''a''], [[''<em>null</em>''], [''&lt;b&gt;x&lt;/b&gt;'']])\<close>
  by (simp add: render_defs summary_with_sample_def array_index_0 array_index_1
      sample_cell_def sample_cell_phase1_def isMissing_def escapeHtml_def replace_all_def)


section \<open>Choosing the charts\<close>

text \<open>
  The fallback loop appends the cards of the keys it is given, in order, until four are
  shown; the four priority steps make exactly the picks of the specification, and their
  guards on the counter never stop one of them.
\<close>

lemma fill_remaining_take:
  "count sel = length (chartsHtml sel) \<Longrightarrow>
   chartsHtml (fill_remaining charts keys sel) =
     chartsHtml sel @
     take (4 - count sel) (List.map_filter (\<lambda>k. fallback_card k (field charts k)) keys)"
proof (induction keys arbitrary: sel)
  case Nil
  then show ?case by simp
next
  case (Cons key keys)
  show ?case
  proof (cases "count sel \<ge> MAX_CHARTS")
    case True
    then show ?thesis by (simp add: MAX_CHARTS_def)
  next
    case False
    show ?thesis
    proof (cases "fallback_card key (field charts key)")
      case None
      with False Cons show ?thesis by simp
    next
      case (Some c)
      let ?sel = "sel\<lparr>chartsHtml := chartsHtml sel @ [c], count := count sel + 1\<rparr>"
      have "count ?sel = length (chartsHtml ?sel)" using Cons.prems by simp
      from Cons.IH [OF this] Some False show ?thesis
        by (simp add: MAX_CHARTS_def take_Cons')
    qed
  qed
qed

lemma picked_heatmap:
  "picked (select_heatmap charts \<lparr>chartsHtml = [], count = 0, usedKeys = []\<rparr>) (spec_heatmap charts)"
  by (simp add: picked_def select_heatmap_def spec_heatmap_def add_card_def MAX_CHARTS_def)

lemma picked_scatter:
  "picked sel picks \<Longrightarrow> length picks < 4 \<Longrightarrow>
     picked (select_scatter charts sel) (picks @ spec_scatter charts)"
  by (simp add: picked_def select_scatter_def spec_scatter_def add_card_def MAX_CHARTS_def
      split: option.splits)

lemma find_paired:
  "find (\<lambda>(k, v). P v) (map (\<lambda>k. (k, g k)) ks) = map_option (\<lambda>k. (k, g k)) (find (\<lambda>k. P (g k)) ks)"
  by (induction ks) simp_all

lemma picked_typed:
  "picked sel picks \<Longrightarrow> length picks < 4 \<Longrightarrow>
     picked (select_typed a b charts sel) (picks @ spec_typed a b charts)"
  by (simp add: picked_def select_typed_def spec_typed_def add_card_def MAX_CHARTS_def find_paired
      split: option.splits)

lemma length_spec_heatmap: "length (spec_heatmap charts) \<le> 1"
  by (simp add: spec_heatmap_def)

lemma length_spec_scatter: "length (spec_scatter charts) \<le> 1"
  by (simp add: spec_scatter_def split: option.splits)

lemma length_spec_typed: "length (spec_typed a b charts) \<le> 1"
  by (simp add: spec_typed_def split: option.splits)

lemma length_spec_priority: "length (spec_priority charts) \<le> 4"
  using length_spec_heatmap [of charts] length_spec_scatter [of charts]
    length_spec_typed [of "''histogram''" "''boxplot''" charts]
    length_spec_typed [of "''barh''" "''pie''" charts]
  by (simp add: spec_priority_def)

lemma picked_priority:
  "picked (select_typed ''barh'' ''pie'' charts
           (select_typed ''histogram'' ''boxplot'' charts
             (select_scatter charts
               (select_heatmap charts \<lparr>chartsHtml = [], count = 0, usedKeys = []\<rparr>))))
     (spec_priority charts)"
proof -
  let ?h = "spec_heatmap charts" and ?s = "spec_scatter charts"
  let ?n = "spec_typed ''histogram'' ''boxplot'' charts"
  have 1: "length ?h < 4" using length_spec_heatmap [of charts] by simp
  have 2: "length (?h @ ?s) < 4"
    using length_spec_heatmap [of charts] length_spec_scatter [of charts] by simp
  have 3: "length ((?h @ ?s) @ ?n) < 4"
    using length_spec_heatmap [of charts] length_spec_scatter [of charts]
      length_spec_typed [of "''histogram''" "''boxplot''" charts] by simp
  from picked_typed [OF picked_typed [OF picked_scatter [OF picked_heatmap 1] 2] 3]
  show ?thesis by (simp add: spec_priority_def)
qed

lemma select_fallback_picked:
  "picked sel picks \<Longrightarrow> length picks \<le> 4 \<Longrightarrow>
     chartsHtml (select_fallback charts sel) =
       map snd picks @
       take (4 - length picks)
         (List.map_filter (\<lambda>k. fallback_card k (field charts k))
            (filter (\<lambda>k. k \<notin> set (map fst picks)) (object_keys charts)))"
  by (simp add: select_fallback_def picked_def fill_remaining_take MAX_CHARTS_def)

lemma select_charts_spec: "select_charts charts = spec_selection charts"
  unfolding select_charts_def spec_selection_def spec_others_def
  by (rule select_fallback_picked [OF picked_priority length_spec_priority])

lemma length_spec_selection: "length (spec_selection charts) \<le> 4"
  using length_spec_priority [of charts] by (simp add: spec_selection_def)

text \<open>
  Claim C5, as the code has it. For every charts payload the cards shown by \<^verbatim>\<open>displayCharts\<close>
  are the picks of the priority list in its order: the correlation heatmap, the first scatter
  entry, the first entry other than the heatmap and the scatter entries that has a histogram
  or a boxplot (the histogram if it has one) and the first such entry that has a horizontal
  bar or a pie chart (the bar chart if it has one), followed by the other returned charts
  that have an image, in the order received, as long as fewer than four cards are shown;
  never more than four. A further scatter entry is one of the other charts.
\<close>

theorem select_charts_priority:
  "select_charts charts = spec_selection charts \<and> length (select_charts charts) \<le> 4"
proof
  show same: "select_charts charts = spec_selection charts"
    by (rule select_charts_spec)
  have "length (spec_selection charts) \<le> 4"
    by (rule length_spec_selection)
  with same show "length (select_charts charts) \<le> 4"
    by simp
qed

text \<open>
  For the example payload the fallback adds the second scatter plot as a fourth card, so two
  scatter entries are shown and not exactly one.
\<close>

theorem select_charts_example_two_scatter:
  "select_charts example_charts =
     [(''Correlation Heatmap'', ''HEAT''), (''a vs b'', ''S1''),
      (''age (histogram)'', ''H''), (''scatter  a  c'', ''S2'')] \<and>
   select_charts example_charts \<noteq>
     [(''Correlation Heatmap'', ''HEAT''), (''a vs b'', ''S1''), (''age (histogram)'', ''H'')]"
  by (simp add: select_charts_def example_charts_def select_heatmap_def select_scatter_def
      select_typed_def select_fallback_def add_card_def MAX_CHARTS_def field_def
      object_keys_def scatter_card_def candidates_def has_type_def typed_card_def
      is_object_def fallback_card_def replace_all_def)

end
